theory Spec2Isabelle
  imports Main "HOL-Library.Sublist"
begin

section \<open>The client's view of a session (ClipboardInterface.jsx)\<close>

text \<open>
  The component keeps three pieces of React state that the WebSocket handler writes:
  \<^verbatim>\<open>session\<close> (initially \<^verbatim>\<open>null\<close>), \<^verbatim>\<open>blocks\<close> and \<^verbatim>\<open>users\<close> (initially empty arrays), and the
  \<^verbatim>\<open>notification\<close> text. Objects of known shape are records; a field that a JavaScript
  object may lack is an option.
\<close>

record user =
  user_id :: string
  user_name :: string
  is_host :: bool

record block =
  block_id :: nat
  block_type :: string
  block_content :: string
  block_filename :: string
  block_created_at :: string

record session_info =
  host_id :: "string option"
  allow_join :: "bool option"

text \<open>\<^verbatim>\<open>sessionData\<close> of the session context: what create/join returned.\<close>

record session_data =
  sd_session_id :: string
  sd_user_id :: string

record client_state =
  session :: "session_info option"
  blocks :: "block list"
  users :: "user list"
  notification :: "string option"
  reload_scheduled :: bool

text \<open>
  A parsed WebSocket message: the \<^verbatim>\<open>type\<close> tag and the payload fields the handler reads.
  A message is taken to carry the fields that the case for its tag reads; the fields
  of the other cases are never looked at.
\<close>

record message =
  msg_type :: string
  msg_user :: user
  msg_user_id :: string
  msg_block :: block
  msg_block_id :: nat
  msg_new_host_id :: string
  msg_allow_join :: bool

text \<open>\<^verbatim>\<open>{...prev, field: v}\<close> on a \<^verbatim>\<open>prev\<close> that may be \<^verbatim>\<open>null\<close>: spreading \<^verbatim>\<open>null\<close> gives no field.\<close>

definition spread :: "session_info option \<Rightarrow> session_info" where
  "spread prev = (case prev of None \<Rightarrow> \<lparr>host_id = None, allow_join = None\<rparr> | Some s \<Rightarrow> s)"

text \<open>\<^verbatim>\<open>showNotification\<close>: sets the text (the timer that clears it 3 s later is not modelled).\<close>

definition showNotification :: "string \<Rightarrow> client_state \<Rightarrow> client_state" where
  "showNotification txt st = st\<lparr>notification := Some txt\<rparr>"

text \<open>The \<^verbatim>\<open>switch (message.type)\<close> of \<^verbatim>\<open>handleWebSocketMessage\<close>, case by case; no default case.\<close>

definition handleWebSocketMessage ::
  "session_data \<Rightarrow> message \<Rightarrow> client_state \<Rightarrow> client_state" where
  "handleWebSocketMessage sd m st =
    (if msg_type m = ''user_joined'' then
       showNotification (user_name (msg_user m) @ '' joined the session'')
         (st\<lparr>users := users st @ [msg_user m]\<rparr>)
     else if msg_type m = ''user_left'' then
       (let st' = st\<lparr>users := filter (\<lambda>u. user_id u \<noteq> msg_user_id m) (users st)\<rparr>
        in case find (\<lambda>u. user_id u = msg_user_id m) (users st) of
             Some leftUser \<Rightarrow> showNotification (user_name leftUser @ '' left the session'') st'
           | None \<Rightarrow> st')
     else if msg_type m = ''block_created'' then
       st\<lparr>blocks := blocks st @ [msg_block m]\<rparr>
     else if msg_type m = ''block_deleted'' then
       st\<lparr>blocks := filter (\<lambda>b. block_id b \<noteq> msg_block_id m) (blocks st)\<rparr>
     else if msg_type m = ''host_transferred'' then
       (let st' = st\<lparr>users := map (\<lambda>u. u\<lparr>is_host := (user_id u = msg_new_host_id m)\<rparr>) (users st),
                      session := Some ((spread (session st))\<lparr>host_id := Some (msg_new_host_id m)\<rparr>)\<rparr>
        in if msg_new_host_id m = sd_user_id sd
           then showNotification ''You are now the host'' st' else st')
     else if msg_type m = ''join_permission_changed'' then
       st\<lparr>session := Some ((spread (session st))\<lparr>allow_join := Some (msg_allow_join m)\<rparr>)\<rparr>
     else if msg_type m = ''session_destroyed'' then
       (showNotification ''Session has been destroyed'' st)\<lparr>reload_scheduled := True\<rparr>
     else st)"

text \<open>
  \<^verbatim>\<open>onmessage\<close> of \<^verbatim>\<open>useWebSocket(sessionId, userId, onMessage)\<close>: the parsed message is
  handed to the callback \<^verbatim>\<open>onMessage\<close> the hook was given unless its type is \<^verbatim>\<open>pong\<close>. The
  callback is any function on any state; \<^verbatim>\<open>ClipboardInterface\<close> passes
  \<^verbatim>\<open>handleWebSocketMessage\<close>.
\<close>

definition ws_onmessage :: "(message \<Rightarrow> 's \<Rightarrow> 's) \<Rightarrow> message \<Rightarrow> 's \<Rightarrow> 's" where
  "ws_onmessage onMessage m st = (if msg_type m \<noteq> ''pong'' then onMessage m st else st)"

text \<open>The event kinds of the real-time channel.\<close>

definition event_kinds :: "string list" where
  "event_kinds = [''user_joined'', ''user_left'', ''block_created'', ''block_deleted'',
     ''host_transferred'', ''join_permission_changed'', ''session_destroyed'']"


section \<open>Values, errors and HTTP exchanges of the browser runtime\<close>

text \<open>
  A parsed JSON value. An object is the list of its members in the order of the text;
  as with \<^verbatim>\<open>JSON.parse\<close>, the last member of a name is the one a property read sees.
\<close>

datatype json =
    JNull
  | JBool bool
  | JNum int
  | JStr string
  | JArr "json list"
  | JObj "(string \<times> json) list"

text \<open>
  What a function throws or a promise rejects with. \<open>Error v\<close> is \<^verbatim>\<open>new Error(v)\<close>, with
  \<open>v\<close> the value the code passes as message; \<open>TypeError\<close> is a property read on \<^verbatim>\<open>null\<close> or
  \<^verbatim>\<open>undefined\<close>;
  \<open>SyntaxError\<close> is \<^verbatim>\<open>response.json()\<close> on a body that is not JSON; \<open>FetchFailed\<close> is a
  rejected \<^verbatim>\<open>fetch\<close>; \<open>BodyFailed\<close> is a rejected \<^verbatim>\<open>response.text()\<close>; \<open>MalformedUtf8\<close> is what
  CryptoJS throws when decrypted bytes are not text.
\<close>

datatype js_error =
    Error json
  | TypeError
  | SyntaxError
  | FetchFailed
  | BodyFailed
  | MalformedUtf8

text \<open>JavaScript truthiness of a JSON value (the operand of \<^verbatim>\<open>||\<close>).\<close>

fun truthy :: "json \<Rightarrow> bool" where
  "truthy JNull = False"
| "truthy (JBool b) = b"
| "truthy (JNum n) = (n \<noteq> 0)"
| "truthy (JStr s) = (s \<noteq> [])"
| "truthy (JArr _) = True"
| "truthy (JObj _) = True"

text \<open>
  A property read \<^verbatim>\<open>v.name\<close> for a name that only an object parsed from JSON can carry:
  it throws on \<^verbatim>\<open>null\<close>, and is \<^verbatim>\<open>undefined\<close> (\<open>None\<close>) on a value without that member.
\<close>

fun prop_read :: "json \<Rightarrow> string \<Rightarrow> js_error + json option" where
  "prop_read JNull name = Inl TypeError"
| "prop_read (JObj kvs) name = Inr (map_of (rev kvs) name)"
| "prop_read _ name = Inr None"

text \<open>
  An HTTP response as the code reads it: \<^verbatim>\<open>response.ok\<close>, the outcome of
  \<^verbatim>\<open>response.text()\<close> and the outcome of \<^verbatim>\<open>response.json()\<close> (\<open>None\<close> when the promise
  rejects: the body cannot be read or, for \<^verbatim>\<open>json()\<close>, is not JSON).
\<close>

record http_response =
  resp_ok :: bool
  resp_text :: "string option"
  resp_json :: "json option"

datatype fetch_result = Rejected | Responded http_response

record request =
  req_method :: string
  req_url :: string
  req_body :: "json option"

text \<open>The network and the server behind it: what \<^verbatim>\<open>fetch\<close> settles with for a request.\<close>

type_synonym network = "request \<Rightarrow> fetch_result"

definition http_get :: "string \<Rightarrow> request" where
  "http_get url = \<lparr>req_method = ''GET'', req_url = url, req_body = None\<rparr>"

section \<open>Runtime configuration (config.js)\<close>

text \<open>
  The module variable \<^verbatim>\<open>backendUrl\<close> is \<^verbatim>\<open>null\<close> (\<open>None\<close>) or a string.
  \<^verbatim>\<open>import.meta.env.VITE_API_URL\<close> is \<^verbatim>\<open>undefined\<close> (\<open>None\<close>) or a string.
\<close>

record env =
  vite_api_url :: "string option"

text \<open>
  Characters are code units below 256. \<open>is_space\<close> is the part of the class \<^verbatim>\<open>\s\<close> (and
  of what \<^verbatim>\<open>trim\<close> strips) in that range: TAB, LF, VT, FF, CR, space and NBSP.
\<close>

definition is_space :: "char \<Rightarrow> bool" where
  "is_space c = (c \<in> set [CHR 0x09, CHR 0x0A, CHR 0x0B, CHR 0x0C, CHR 0x0D, CHR 0x20, CHR 0xA0])"

definition is_quote :: "char \<Rightarrow> bool" where
  "is_quote c = (c = CHR 0x22 \<or> c = CHR 0x27)"

text \<open>The class \<^verbatim>\<open>[^"'\n]\<close>.\<close>

definition url_char :: "char \<Rightarrow> bool" where
  "url_char c = (\<not> is_quote c \<and> c \<noteq> CHR 0x0A)"

text \<open>
  The regular expression \<^verbatim>\<open>/url:\s*["']?([^"'\n]+)["']?/\<close>, as a backtracking matcher
  returning the text of group 1 of the first match.

  \<open>capture_from\<close> is \<^verbatim>\<open>["']?([^"'\n]+)["']?\<close> at a position: the optional quote is taken
  when there is one (if the group then fails, so does the alternative without the
  quote, since the group cannot start with a quote); the group is the longest run of
  class characters and must not be empty; the closing optional quote always succeeds.
\<close>

definition capture_from :: "string \<Rightarrow> string option" where
  "capture_from s =
     (case s of
        [] \<Rightarrow> None
      | c # t \<Rightarrow>
          (let g = takeWhile url_char (if is_quote c then t else s)
           in if g = [] then None else Some g))"

text \<open>
  \<^verbatim>\<open>\s*\<close> is greedy: it first takes the whole run of white space and gives characters
  back one at a time while the rest fails.
\<close>

fun try_spaces :: "nat \<Rightarrow> string \<Rightarrow> string option" where
  "try_spaces 0 s = capture_from s"
| "try_spaces (Suc k) s =
     (case capture_from (drop (Suc k) s) of
        Some g \<Rightarrow> Some g
      | None \<Rightarrow> try_spaces k s)"

definition match_after_key :: "string \<Rightarrow> string option" where
  "match_after_key s = try_spaces (length (takeWhile is_space s)) s"

text \<open>\<^verbatim>\<open>yamlText.match(...)\<close>: the leftmost position where the expression matches.\<close>

fun match_url :: "string \<Rightarrow> string option" where
  "match_url [] = None"
| "match_url (c # t) =
     (if take 4 (c # t) = ''url:''
      then (case match_after_key (drop 4 (c # t)) of
              Some g \<Rightarrow> Some g
            | None \<Rightarrow> match_url t)
      else match_url t)"

text \<open>\<^verbatim>\<open>String.prototype.trim\<close>.\<close>

definition js_trim :: "string \<Rightarrow> string" where
  "js_trim s = rev (dropWhile is_space (rev (dropWhile is_space s)))"

text \<open>
  \<^verbatim>\<open>configUrls\<close>: the same-origin file, then the one under \<^verbatim>\<open>VITE_API_URL\<close> when that
  variable is truthy; \<^verbatim>\<open>filter(Boolean)\<close> drops the \<^verbatim>\<open>null\<close>.
\<close>

definition configUrls :: "env \<Rightarrow> string list" where
  "configUrls e =
     ''/config.yaml'' #
     (case vite_api_url e of
        None \<Rightarrow> []
      | Some v \<Rightarrow> if v = [] then [] else [v @ ''/config.yaml''])"

text \<open>
  The \<^verbatim>\<open>for\<close> loop of \<^verbatim>\<open>initConfig\<close>: the first candidate that answers ok with a text in
  which the expression matches decides; a rejected fetch or body read is caught and
  the loop goes on, as it does after a response that is not ok or has no match.
\<close>

fun try_config_urls :: "network \<Rightarrow> string list \<Rightarrow> string option" where
  "try_config_urls net [] = None"
| "try_config_urls net (url # urls) =
     (case net (http_get url) of
        Rejected \<Rightarrow> try_config_urls net urls
      | Responded response \<Rightarrow>
          if resp_ok response then
            (case resp_text response of
               None \<Rightarrow> try_config_urls net urls
             | Some yamlText \<Rightarrow>
                 (case match_url yamlText of
                    Some g \<Rightarrow> Some (js_trim g)
                  | None \<Rightarrow> try_config_urls net urls))
          else try_config_urls net urls)"

text \<open>
  \<^verbatim>\<open>initConfig\<close>: the new value of \<^verbatim>\<open>backendUrl\<close> and the value the promise resolves with.
  The fallback is \<^verbatim>\<open>import.meta.env.VITE_API_URL || 'http://localhost:8123'\<close>.
\<close>

definition initConfig :: "env \<Rightarrow> network \<Rightarrow> string option \<times> string" where
  "initConfig e net =
     (case try_config_urls net (configUrls e) of
        Some url \<Rightarrow> (Some url, url)
      | None \<Rightarrow>
          (let url = (case vite_api_url e of
                        None \<Rightarrow> ''http://localhost:8123''
                      | Some v \<Rightarrow> if v = [] then ''http://localhost:8123'' else v)
           in (Some url, url)))"

text \<open>\<^verbatim>\<open>getBackendUrl\<close>: \<^verbatim>\<open>!backendUrl\<close> holds for \<^verbatim>\<open>null\<close> and for the empty string.\<close>

definition getBackendUrl :: "string option \<Rightarrow> js_error + string" where
  "getBackendUrl backendUrl =
     (case backendUrl of
        None \<Rightarrow> Inl (Error (JStr ''Config not initialized. Call initConfig() first.''))
      | Some url \<Rightarrow>
          if url = [] then Inl (Error (JStr ''Config not initialized. Call initConfig() first.''))
          else Inr url)"

section \<open>Client-side encryption (encryption.js)\<close>

text \<open>
  The module variable \<^verbatim>\<open>encryptionConfig\<close> is \<^verbatim>\<open>null\<close> until \<^verbatim>\<open>initEncryption\<close> assigns it an
  object with the two members it read from the server's answer. Each member is whatever
  the answer holds under that name: \<open>None\<close> is \<^verbatim>\<open>undefined\<close> (the answer has no such member).
\<close>

record encryption_config =
  passphrase :: "json option"
  salt :: "json option"


text \<open>
  CryptoJS is a third-party library, so the three calls the module makes are parameters.
  Each of them may throw, and the module passes on whatever it throws (\<open>Inl\<close>):
  \<^item> \<open>pbkdf2_hex p s keySize iterations\<close> is
    \<^verbatim>\<open>CryptoJS.PBKDF2(p, s, {keySize, iterations}).toString()\<close> for a password \<open>p\<close> that is
    neither \<^verbatim>\<open>undefined\<close> nor \<^verbatim>\<open>null\<close>;
  \<^item> \<open>aes_encrypt data pass rnd\<close> is \<^verbatim>\<open>CryptoJS.AES.encrypt(data, pass).toString()\<close>, where
    \<open>rnd\<close> is the random salt the library draws for a passphrase;
  \<^item> \<open>aes_decrypt_utf8 data pass rnd\<close> is
    \<^verbatim>\<open>CryptoJS.AES.decrypt(data, pass).toString(CryptoJS.enc.Utf8)\<close>, where \<open>rnd\<close> is the
    random salt the library draws when the input carries none; the library throws
    "Malformed UTF-8 data" when the decrypted bytes are not UTF-8.
\<close>

record cryptojs =
  pbkdf2_hex :: "json \<Rightarrow> json option \<Rightarrow> nat \<Rightarrow> nat \<Rightarrow> js_error + string"
  aes_encrypt :: "string \<Rightarrow> string \<Rightarrow> string \<Rightarrow> js_error + string"
  aes_decrypt_utf8 :: "string \<Rightarrow> string \<Rightarrow> string \<Rightarrow> js_error + string"

text \<open>
  The key both functions derive: \<^verbatim>\<open>keySize: 256 / 32, iterations: 1000\<close>. One outcome of
  the library call is written out, as it does not depend on the cipher:
  \<^verbatim>\<open>CryptoJS.PBKDF2\<close> hands the password to its HMAC, which converts a string and
  otherwise reads \<^verbatim>\<open>key.sigBytes\<close>; on a password that is \<^verbatim>\<open>undefined\<close> or \<^verbatim>\<open>null\<close> that
  read is a TypeError.
\<close>

definition derive_key :: "cryptojs \<Rightarrow> encryption_config \<Rightarrow> js_error + string" where
  "derive_key lib c =
     (case passphrase c of
        None \<Rightarrow> Inl TypeError
      | Some p \<Rightarrow>
          if p = JNull then Inl TypeError else pbkdf2_hex lib p (salt c) (256 div 32) 1000)"


definition decrypt ::
  "cryptojs \<Rightarrow> encryption_config option \<Rightarrow> string \<Rightarrow> string \<Rightarrow> js_error + string" where
  "decrypt lib encryptionConfig rnd encryptedData =
     (case encryptionConfig of
        None \<Rightarrow> Inl (Error (JStr ''Encryption not initialized''))
      | Some c \<Rightarrow>
          (case derive_key lib c of
             Inl e \<Rightarrow> Inl e
           | Inr key \<Rightarrow> aes_decrypt_utf8 lib encryptedData key rnd))"
section \<open>The API client (api.js)\<close>

definition getApiBase :: "string option \<Rightarrow> js_error + string" where
  "getApiBase backendUrl =
     (case getBackendUrl backendUrl of
        Inl e \<Rightarrow> Inl e
      | Inr url \<Rightarrow> Inr (url @ ''/api/v1''))"

text \<open>
  The request \<^verbatim>\<open>joinSession\<close> sends. The caller passes \<^verbatim>\<open>userName || null\<close>, so an absent
  name is \<^verbatim>\<open>null\<close>.
\<close>

definition join_request :: "string \<Rightarrow> string \<Rightarrow> string option \<Rightarrow> request" where
  "join_request base sessionId userName =
     \<lparr>req_method = ''POST'', req_url = base @ ''/session/join'',
      req_body = Some (JObj [(''session_id'', JStr sessionId),
        (''user_name'', case userName of None \<Rightarrow> JNull | Some n \<Rightarrow> JStr n)])\<rparr>"

text \<open>
  \<^verbatim>\<open>joinSession\<close>. Every \<^verbatim>\<open>await\<close> that can reject is a branch: the fetch, the two
  \<^verbatim>\<open>response.json()\<close> calls, and the read of \<^verbatim>\<open>error.detail\<close>.
\<close>

definition joinSession ::
  "string option \<Rightarrow> network \<Rightarrow> string \<Rightarrow> string option \<Rightarrow> js_error + json" where
  "joinSession backendUrl net sessionId userName =
     (case getApiBase backendUrl of
        Inl e \<Rightarrow> Inl e
      | Inr base \<Rightarrow>
          (case net (join_request base sessionId userName) of
             Rejected \<Rightarrow> Inl FetchFailed
           | Responded response \<Rightarrow>
               if \<not> resp_ok response then
                 (case resp_json response of
                    None \<Rightarrow> Inl SyntaxError
                  | Some error \<Rightarrow>
                      (case prop_read error ''detail'' of
                         Inl e \<Rightarrow> Inl e
                       | Inr None \<Rightarrow> Inl (Error (JStr ''Failed to join session''))
                       | Inr (Some detail) \<Rightarrow>
                           Inl (Error (if truthy detail then detail
                                       else JStr ''Failed to join session''))))
               else
                 (case resp_json response of
                    None \<Rightarrow> Inl SyntaxError
                  | Some data \<Rightarrow> Inr data)))"

definition getDownloadUrl :: "string option \<Rightarrow> string \<Rightarrow> string \<Rightarrow> js_error + string" where
  "getDownloadUrl backendUrl sessionId blockId =
     (case getApiBase backendUrl of
        Inl e \<Rightarrow> Inl e
      | Inr base \<Rightarrow> Inr (base @ ''/block/download/'' @ sessionId @ ''/'' @ blockId))"

text \<open>
  \<^verbatim>\<open>downloadBlock\<close>: the \<^verbatim>\<open>try\<close> covers only the call of \<^verbatim>\<open>decrypt\<close>; whatever it throws,
  the \<^verbatim>\<open>catch\<close> returns the text as fetched. \<^verbatim>\<open>response.ok\<close> is not looked at. \<open>rnd\<close> is
  the random salt the library may draw in \<^verbatim>\<open>decrypt\<close>.
\<close>

definition downloadBlock ::
  "string option \<Rightarrow> cryptojs \<Rightarrow> encryption_config option \<Rightarrow> string \<Rightarrow> network \<Rightarrow> string
     \<Rightarrow> string \<Rightarrow> js_error + string" where
  "downloadBlock backendUrl lib encryptionConfig rnd net sessionId blockId =
     (case getDownloadUrl backendUrl sessionId blockId of
        Inl e \<Rightarrow> Inl e
      | Inr url \<Rightarrow>
          (case net (http_get url) of
             Rejected \<Rightarrow> Inl FetchFailed
           | Responded response \<Rightarrow>
               (case resp_text response of
                  None \<Rightarrow> Inl BodyFailed
                | Some encryptedData \<Rightarrow>
                    (case decrypt lib encryptionConfig rnd encryptedData of
                       Inr decryptedText \<Rightarrow> Inr decryptedText
                     | Inl e \<Rightarrow> Inr encryptedData))))"

section \<open>The session registry and block ledger of the backend\<close>

text \<open>
  The backend is not among the sources of the client; the definitions of this section
  follow the contracts of the specification (sections 3, 4.1, 4.2, 4.5 and 7). Times are
  seconds on the server's clock.
\<close>

text \<open>Modelled from the spec: the errors of section 7 that the operations below return.\<close>

datatype srv_error = NotFound | JoinDisabled | Forbidden | PayloadTooLarge

datatype block_kind = TextKind | FileKind

text \<open>
  Modelled from the spec: the Block entity of section 3, which the backend's ledger
  stores (kind, opaque payload or blob handle, filename and size of a file, creator,
  creation time).
\<close>

record ledger_entry =
  le_id :: nat
  le_kind :: block_kind
  le_payload :: string
  le_filename :: "string option"
  le_size :: nat
  le_creator :: string
  le_created_at :: nat

record new_block =
  nb_kind :: block_kind
  nb_payload :: string
  nb_filename :: "string option"
  nb_size :: nat
  nb_creator :: string
  nb_created_at :: nat

text \<open>
  Modelled from the spec: the Block Ledger of section 4.2, an ordered sequence of blocks
  with the counter from which \<^verbatim>\<open>append\<close> assigns "a monotonically increasing ID within the
  session"; the backend's ledger is missing from the sources.
\<close>

record ledger =
  next_block_id :: nat
  entries :: "ledger_entry list"

definition empty_ledger :: ledger where
  "empty_ledger = \<lparr>next_block_id = 1, entries = []\<rparr>"

text \<open>
  Modelled from the spec: \<^verbatim>\<open>append(block) -> blockId\<close> of section 4.2, missing from the
  sources: "assigns a monotonically increasing ID within the session, enforces the
  configured max-size limit for file blocks (fails with PayloadTooLarge otherwise),
  appends to the ordered sequence".
\<close>

definition ledger_append :: "nat \<Rightarrow> new_block \<Rightarrow> ledger \<Rightarrow> srv_error + (nat \<times> ledger)" where
  "ledger_append max_size nb l =
     (if nb_kind nb = FileKind \<and> max_size < nb_size nb then Inl PayloadTooLarge
      else Inr (next_block_id l,
             \<lparr>next_block_id = Suc (next_block_id l),
              entries = entries l @
                [\<lparr>le_id = next_block_id l, le_kind = nb_kind nb, le_payload = nb_payload nb,
                  le_filename = nb_filename nb, le_size = nb_size nb,
                  le_creator = nb_creator nb, le_created_at = nb_created_at nb\<rparr>]\<rparr>))"

text \<open>
  Modelled from the spec: \<^verbatim>\<open>remove(blockId)\<close> of section 4.2, missing from the sources:
  "fails with NotFound if absent; removes from the sequence".
\<close>

definition ledger_remove :: "nat \<Rightarrow> ledger \<Rightarrow> srv_error + ledger" where
  "ledger_remove b l =
     (if b \<in> le_id ` set (entries l)
      then Inr (l\<lparr>entries := filter (\<lambda>e. le_id e \<noteq> b) (entries l)\<rparr>)
      else Inl NotFound)"

text \<open>
  Modelled from the spec: the life of one session's ledger, a sequence of append and
  remove requests (section 4.4: a request is applied whole or not at all). The run
  returns the ids that its successful appends assigned, in order, and the final ledger;
  a failed request leaves the ledger as it is.
\<close>

datatype ledger_op = Append new_block | Remove nat

fun run_ledger :: "nat \<Rightarrow> ledger_op list \<Rightarrow> ledger \<Rightarrow> nat list \<times> ledger" where
  "run_ledger max_size [] l = ([], l)"
| "run_ledger max_size (Append nb # ops) l =
     (case ledger_append max_size nb l of
        Inl e \<Rightarrow> run_ledger max_size ops l
      | Inr (i, l') \<Rightarrow>
          (case run_ledger max_size ops l' of (ids, l'') \<Rightarrow> (i # ids, l'')))"
| "run_ledger max_size (Remove b # ops) l =
     (case ledger_remove b l of
        Inl e \<Rightarrow> run_ledger max_size ops l
      | Inr l' \<Rightarrow> run_ledger max_size ops l')"

text \<open>
  Modelled from the spec: the Session entity of section 3 (host user ID, \<^verbatim>\<open>allow_join\<close>
  flag, creation and last-activity timestamps, users, ledger), which the backend's
  registry stores. \<open>ss_empty_since\<close> is the time since which the session has had no
  member, for the grace window of section 4.5.
\<close>

record server_session =
  ss_host_id :: string
  ss_allow_join :: bool
  ss_created_at :: nat
  ss_last_activity :: nat
  ss_users :: "user list"
  ss_ledger :: ledger
  ss_empty_since :: "nat option"

type_synonym registry = "string \<Rightarrow> server_session option"

text \<open>
  Modelled from the spec: \<^verbatim>\<open>join(sessionId, userName?) -> (userId, isHost=false)\<close> of section
  4.1, missing from the sources: "fails with NotFound if the ID is unknown, fails with
  JoinDisabled if allow_join=false. On success appends a new User and refreshes
  activity". The process-unique user id and the random display name are given.
\<close>

definition session_join ::
  "nat \<Rightarrow> string \<Rightarrow> string \<Rightarrow> string \<Rightarrow> string option \<Rightarrow> registry
     \<Rightarrow> srv_error + ((string \<times> bool) \<times> registry)" where
  "session_join now new_id random_name sid userName reg =
     (case reg sid of
        None \<Rightarrow> Inl NotFound
      | Some s \<Rightarrow>
          if \<not> ss_allow_join s then Inl JoinDisabled
          else Inr ((new_id, False),
                 reg(sid \<mapsto> s\<lparr>ss_users := ss_users s @
                      [\<lparr>user_id = new_id,
                        user_name = (case userName of None \<Rightarrow> random_name | Some n \<Rightarrow> n),
                        is_host = False\<rparr>],
                    ss_last_activity := now, ss_empty_since := None\<rparr>)))"

text \<open>
  Modelled from the spec: \<^verbatim>\<open>toggleJoin(sessionId, requesterId, value)\<close> of section 4.1,
  missing from the sources: "fails with Forbidden unless requester is host"; a mutating
  request refreshes the activity timestamp (section 3).
\<close>

definition session_toggleJoin ::
  "nat \<Rightarrow> string \<Rightarrow> string \<Rightarrow> bool \<Rightarrow> registry \<Rightarrow> srv_error + registry" where
  "session_toggleJoin now sid requester v reg =
     (case reg sid of
        None \<Rightarrow> Inl NotFound
      | Some s \<Rightarrow>
          if requester \<noteq> ss_host_id s then Inl Forbidden
          else Inr (reg(sid \<mapsto> s\<lparr>ss_allow_join := v, ss_last_activity := now\<rparr>)))"

record snapshot =
  snap_host_id :: string
  snap_allow_join :: bool
  snap_users :: "user list"
  snap_blocks :: "ledger_entry list"

text \<open>
  Modelled from the spec: \<^verbatim>\<open>get(sessionId) -> snapshot\<close> of section 4.1, missing from the
  sources: "(users, blocks, host, allow_join): fails with NotFound".
\<close>

definition session_get :: "registry \<Rightarrow> string \<Rightarrow> srv_error + snapshot" where
  "session_get reg sid =
     (case reg sid of
        None \<Rightarrow> Inl NotFound
      | Some s \<Rightarrow> Inr \<lparr>snap_host_id = ss_host_id s, snap_allow_join = ss_allow_join s,
                      snap_users = ss_users s, snap_blocks = entries (ss_ledger s)\<rparr>)"

text \<open>
  Modelled from the spec: the default of the configured inactivity threshold, one hour
  (section 6).
\<close>

definition default_threshold :: nat where
  "default_threshold = 3600"

text \<open>
  Modelled from the spec: the Eviction Sweeper of section 4.5, missing from the sources:
  it removes "each session whose last-activity timestamp exceeds the 1-hour threshold, or
  whose membership has been empty past a short grace window".
\<close>

definition expired :: "nat \<Rightarrow> nat \<Rightarrow> nat \<Rightarrow> server_session \<Rightarrow> bool" where
  "expired now threshold grace s =
     (ss_last_activity s + threshold < now \<or>
      (case ss_empty_since s of None \<Rightarrow> False | Some t \<Rightarrow> t + grace < now))"

definition sweep :: "nat \<Rightarrow> nat \<Rightarrow> nat \<Rightarrow> registry \<Rightarrow> registry" where
  "sweep now threshold grace reg =
     (\<lambda>sid. case reg sid of
               None \<Rightarrow> None
             | Some s \<Rightarrow> if expired now threshold grace s then None else Some s)"

text \<open>
  Modelled from the spec: what can follow a sweep on the registry, namely joins, join
  toggles and further sweeps. A request that fails leaves the registry as it is. (A new
  session under an id appears only through create.)
\<close>

datatype registry_op =
    Join nat string string string "string option"
  | ToggleJoin nat string string bool
  | Sweep nat

fun apply_op :: "nat \<Rightarrow> nat \<Rightarrow> registry \<Rightarrow> registry_op \<Rightarrow> registry" where
  "apply_op threshold grace reg (Join now new_id random_name sid userName) =
     (case session_join now new_id random_name sid userName reg of
        Inl e \<Rightarrow> reg
      | Inr (r, reg') \<Rightarrow> reg')"
| "apply_op threshold grace reg (ToggleJoin now sid requester v) =
     (case session_toggleJoin now sid requester v reg of
        Inl e \<Rightarrow> reg
      | Inr reg' \<Rightarrow> reg')"
| "apply_op threshold grace reg (Sweep now) = sweep now threshold grace reg"

definition run_registry :: "nat \<Rightarrow> nat \<Rightarrow> registry_op list \<Rightarrow> registry \<Rightarrow> registry" where
  "run_registry threshold grace ops reg = foldl (apply_op threshold grace) reg ops"

text \<open>
  Modelled from the spec: the join endpoint's answer as the client reads it (section 6:
  success output "userId, isHost=false", failures NotFound and JoinDisabled). A failure
  is a response that is not ok whose JSON body carries the error's text under
  \<^verbatim>\<open>detail\<close>; a success is an ok response whose JSON body carries the session id, the new
  user's id and the host flag under \<^verbatim>\<open>session_id\<close>, \<^verbatim>\<open>user_id\<close> and \<^verbatim>\<open>is_host\<close>, among
  whatever other members it has (the client's documentation names \<^verbatim>\<open>user_name\<close>). The
  texts of the errors are a parameter.
\<close>

definition encodes_join ::
  "(srv_error \<Rightarrow> string) \<Rightarrow> string \<Rightarrow> http_response
     \<Rightarrow> srv_error + ((string \<times> bool) \<times> registry) \<Rightarrow> bool" where
  "encodes_join detail sid response result =
     (case result of
        Inl e \<Rightarrow>
          \<not> resp_ok response \<and>
          (case resp_json response of
             None \<Rightarrow> False
           | Some body \<Rightarrow> prop_read body ''detail'' = Inr (Some (JStr (detail e))))
      | Inr ((uid, host), reg') \<Rightarrow>
          resp_ok response \<and>
          (case resp_json response of
             None \<Rightarrow> False
           | Some body \<Rightarrow>
               prop_read body ''session_id'' = Inr (Some (JStr sid)) \<and>
               prop_read body ''user_id'' = Inr (Some (JStr uid)) \<and>
               prop_read body ''is_host'' = Inr (Some (JBool host))))"

text \<open>Every block of a ledger has an id below the counter.\<close>

definition ledger_ok :: "ledger \<Rightarrow> bool" where
  "ledger_ok l = (\<forall>e \<in> set (entries l). le_id e < next_block_id l)"

section \<open>The WebSocket hook (useWebSocket)\<close>

text \<open>
  The hook's effect keeps three refs (\<^verbatim>\<open>wsRef\<close>, \<^verbatim>\<open>pingIntervalRef\<close>,
  \<^verbatim>\<open>reconnectTimeoutRef\<close>) that every handler it installs reads and writes when it runs.
  The sockets and the timers live in the browser: a socket is its index in the list of
  sockets created so far, a timer its index in the list of timers set so far, so a ref
  holds an index (or \<^verbatim>\<open>null\<close>). Nothing resets a ref when its timer is cleared. (The
  browser's timer ids are positive, so the code's test \<^verbatim>\<open>if (ref.current)\<close> is the test
  that the ref is not \<^verbatim>\<open>null\<close>.)
\<close>

datatype ready_state = CONNECTING | OPEN | CLOSING | CLOSED

text \<open>A timer: its delay in milliseconds and whether it is still set.\<close>

datatype timer = Interval nat bool | Timeout nat bool

record hook_state =
  sockets :: "ready_state list"
  timers :: "timer list"
  wsRef :: "nat option"
  pingIntervalRef :: "nat option"
  reconnectTimeoutRef :: "nat option"
  isConnected :: bool
  sent :: "(nat \<times> json) list"

definition initial_hook :: hook_state where
  "initial_hook = \<lparr>sockets = [], timers = [], wsRef = None, pingIntervalRef = None,
     reconnectTimeoutRef = None, isConnected = False, sent = []\<rparr>"

text \<open>\<^verbatim>\<open>clearInterval\<close> and \<^verbatim>\<open>clearTimeout\<close>: the timer of that id, if any, is no longer set.\<close>

fun cleared :: "timer \<Rightarrow> timer" where
  "cleared (Interval d a) = Interval d False"
| "cleared (Timeout d a) = Timeout d False"

text \<open>Whether a timer is an interval, or a timeout, that is still set.\<close>

fun interval_set :: "timer \<Rightarrow> bool" where
  "interval_set (Interval d a) = a"
| "interval_set (Timeout d a) = False"

fun timeout_set :: "timer \<Rightarrow> bool" where
  "timeout_set (Interval d a) = False"
| "timeout_set (Timeout d a) = a"

definition clearTimer :: "nat \<Rightarrow> timer list \<Rightarrow> timer list" where
  "clearTimer t ts = (if t < length ts then ts[t := cleared (ts ! t)] else ts)"

text \<open>
  \<^verbatim>\<open>connect\<close>: a new socket, in state CONNECTING, becomes \<^verbatim>\<open>wsRef.current\<close> (the backend URL
  is taken to be configured, so that \<^verbatim>\<open>getBackendUrl\<close> returns).
\<close>

definition connect :: "hook_state \<Rightarrow> hook_state" where
  "connect st = st\<lparr>sockets := sockets st @ [CONNECTING], wsRef := Some (length (sockets st))\<rparr>"

text \<open>\<^verbatim>\<open>onopen\<close>: sets the 30000 ms ping interval and stores its id in \<^verbatim>\<open>pingIntervalRef\<close>.\<close>

definition onopen :: "hook_state \<Rightarrow> hook_state" where
  "onopen st = st\<lparr>isConnected := True, timers := timers st @ [Interval 30000 True],
     pingIntervalRef := Some (length (timers st))\<rparr>"

text \<open>
  The interval's callback: \<^verbatim>\<open>if (wsRef.current?.readyState === WebSocket.OPEN)\<close> it sends
  \<^verbatim>\<open>{type: 'ping'}\<close> on \<^verbatim>\<open>wsRef.current\<close>, the socket the ref holds when the callback runs.
\<close>

definition ping_callback :: "hook_state \<Rightarrow> hook_state" where
  "ping_callback st =
     (case wsRef st of
        None \<Rightarrow> st
      | Some k \<Rightarrow>
          if k < length (sockets st) \<and> sockets st ! k = OPEN
          then st\<lparr>sent := sent st @ [(k, JObj [(''type'', JStr ''ping'')])]\<rparr>
          else st)"

text \<open>
  \<^verbatim>\<open>onclose\<close>: clears the interval whose id \<^verbatim>\<open>pingIntervalRef\<close> holds and sets the 3000 ms
  reconnect timeout.
\<close>

definition onclose :: "hook_state \<Rightarrow> hook_state" where
  "onclose st =
     (let ts = (case pingIntervalRef st of
                  None \<Rightarrow> timers st
                | Some t \<Rightarrow> clearTimer t (timers st))
      in st\<lparr>isConnected := False, timers := ts @ [Timeout 3000 True],
            reconnectTimeoutRef := Some (length ts)\<rparr>)"

definition onerror :: "hook_state \<Rightarrow> hook_state" where
  "onerror st = st\<lparr>isConnected := False\<rparr>"

text \<open>
  \<^verbatim>\<open>ws.close()\<close>: a socket that is connecting or open starts closing; its close event, and
  with it \<^verbatim>\<open>onclose\<close>, comes later.
\<close>

definition close_socket :: "nat \<Rightarrow> ready_state list \<Rightarrow> ready_state list" where
  "close_socket k ss =
     (if k < length ss \<and> (ss ! k = CONNECTING \<or> ss ! k = OPEN) then ss[k := CLOSING] else ss)"

text \<open>The effect's cleanup function.\<close>

definition cleanup :: "hook_state \<Rightarrow> hook_state" where
  "cleanup st =
     (let ts1 = (case pingIntervalRef st of
                   None \<Rightarrow> timers st
                 | Some t \<Rightarrow> clearTimer t (timers st));
          ts2 = (case reconnectTimeoutRef st of
                   None \<Rightarrow> ts1
                 | Some t \<Rightarrow> clearTimer t ts1)
      in st\<lparr>timers := ts2,
            sockets := (case wsRef st of
                          None \<Rightarrow> sockets st
                        | Some k \<Rightarrow> close_socket k (sockets st))\<rparr>)"

text \<open>
  What happens to the hook, one event at a time. \<open>Mount\<close> runs the effect (with a session
  id and a user id, so that it connects); \<open>Rerun\<close> is a render with a changed dependency:
  the cleanup of the previous effect, then the effect again; \<open>Unmount\<close> is the cleanup
  alone. (The dependencies are \<^verbatim>\<open>[sessionId, userId, onMessage]\<close>, and the component passes
  as \<^verbatim>\<open>onMessage\<close> a \<^verbatim>\<open>useCallback\<close> over \<^verbatim>\<open>[users, sessionData]\<close>: a callback that is new
  whenever its users list has changed.) The browser opens and closes sockets and fires
  the timers that are set; an event for a socket or timer that is not in the state for
  it does nothing. The handlers stay on a socket after the cleanup, which only closes
  it.
\<close>

datatype hook_event =
    Mount
  | Rerun
  | Unmount
  | SocketOpens nat
  | SocketCloses nat
  | SocketErrors nat
  | IntervalFires nat
  | TimeoutFires nat

fun hook_step :: "hook_state \<Rightarrow> hook_event \<Rightarrow> hook_state" where
  "hook_step st Mount = connect st"
| "hook_step st Rerun = connect (cleanup st)"
| "hook_step st Unmount = cleanup st"
| "hook_step st (SocketOpens k) =
     (if k < length (sockets st) \<and> sockets st ! k = CONNECTING
      then onopen (st\<lparr>sockets := (sockets st)[k := OPEN]\<rparr>) else st)"
| "hook_step st (SocketCloses k) =
     (if k < length (sockets st) \<and> sockets st ! k \<noteq> CLOSED
      then onclose (st\<lparr>sockets := (sockets st)[k := CLOSED]\<rparr>) else st)"
| "hook_step st (SocketErrors k) =
     (if k < length (sockets st) then onerror st else st)"
| "hook_step st (IntervalFires t) =
     (if t < length (timers st) \<and> interval_set (timers st ! t)
      then ping_callback st else st)"
| "hook_step st (TimeoutFires t) =
     (if t < length (timers st) \<and> timeout_set (timers st ! t)
      then connect (st\<lparr>timers := clearTimer t (timers st)\<rparr>) else st)"

definition run_hook :: "hook_event list \<Rightarrow> hook_state \<Rightarrow> hook_state" where
  "run_hook evs st = foldl hook_step st evs"

text \<open>The ping intervals that are set, and one period of 30 seconds: each of them fires once.\<close>

definition ping_intervals :: "hook_state \<Rightarrow> nat list" where
  "ping_intervals st = filter (\<lambda>t. interval_set (timers st ! t)) [0..<length (timers st)]"

definition period_elapses :: "hook_state \<Rightarrow> hook_state" where
  "period_elapses st = foldl hook_step st (map IntervalFires (ping_intervals st))"

text \<open>
  A run of one effect: a mount and then only events of the browser, with no render that
  changes a dependency and no unmount.
\<close>

fun no_rerender :: "hook_event \<Rightarrow> bool" where
  "no_rerender Mount = False"
| "no_rerender Rerun = False"
| "no_rerender Unmount = False"
| "no_rerender _ = True"

text \<open>The state of the socket that \<^verbatim>\<open>wsRef.current\<close> holds.\<close>

definition current_socket :: "hook_state \<Rightarrow> ready_state option" where
  "current_socket st =
     (case wsRef st of
        None \<Rightarrow> None
      | Some k \<Rightarrow> if k < length (sockets st) then Some (sockets st ! k) else None)"

text \<open>
  What holds throughout a run of one effect: the newest socket is the current one and
  every older socket is closed; an interval is set only while the current socket is
  open, and then it is the one \<^verbatim>\<open>pingIntervalRef\<close> holds; a reconnect timeout is pending
  only while the current socket is closed, and then it is the one
  \<^verbatim>\<open>reconnectTimeoutRef\<close> holds.
\<close>

definition hook_inv :: "hook_state \<Rightarrow> bool" where
  "hook_inv st =
     (sockets st \<noteq> [] \<and> wsRef st = Some (length (sockets st) - 1) \<and>
      (\<forall>k. k < length (sockets st) - 1 \<longrightarrow> sockets st ! k = CLOSED) \<and>
      (\<forall>t. t < length (timers st) \<and> interval_set (timers st ! t) \<longrightarrow>
           pingIntervalRef st = Some t \<and> sockets st ! (length (sockets st) - 1) = OPEN) \<and>
      (sockets st ! (length (sockets st) - 1) = OPEN \<longrightarrow>
         (\<exists>t. t < length (timers st) \<and> pingIntervalRef st = Some t \<and> interval_set (timers st ! t))) \<and>
      (\<forall>t. t < length (timers st) \<and> timeout_set (timers st ! t) \<longrightarrow>
           reconnectTimeoutRef st = Some t \<and> sockets st ! (length (sockets st) - 1) = CLOSED))"

subsection \<open>Concrete sessions on which the theorems are instantiated\<close>

definition event :: "string \<Rightarrow> message" where
  "event t = \<lparr>msg_type = t,
     msg_user = \<lparr>user_id = [], user_name = [], is_host = False\<rparr>, msg_user_id = [],
     msg_block = \<lparr>block_id = 0, block_type = [], block_content = [], block_filename = [],
       block_created_at = []\<rparr>,
     msg_block_id = 0, msg_new_host_id = [], msg_allow_join = False\<rparr>"

definition text_block :: "nat \<Rightarrow> string \<Rightarrow> block" where
  "text_block i c = \<lparr>block_id = i, block_type = ''text'', block_content = c,
     block_filename = [], block_created_at = []\<rparr>"

text \<open>A callback for \<^verbatim>\<open>useWebSocket\<close> that counts the messages it is given.\<close>

definition count_calls :: "message \<Rightarrow> nat \<Rightarrow> nat" where
  "count_calls m n = Suc n"

definition alice :: user where
  "alice = \<lparr>user_id = ''u1'', user_name = ''Alice'', is_host = True\<rparr>"

definition bob :: user where
  "bob = \<lparr>user_id = ''u2'', user_name = ''Bob'', is_host = False\<rparr>"


definition bob_data :: session_data where
  "bob_data = \<lparr>sd_session_id = ''abc123'', sd_user_id = ''u2''\<rparr>"

definition two_users :: client_state where
  "two_users = \<lparr>session = Some \<lparr>host_id = Some ''u1'', allow_join = Some True\<rparr>,
     blocks = [text_block 1 ''a'', text_block 2 ''b'', text_block 3 ''c''],
     users = [alice, bob], notification = None, reload_scheduled = False\<rparr>"

text \<open>
  A stand-in for CryptoJS on which the hypotheses about the library are instantiated:
  the derived key of a string passphrase and a string salt is the two side by side, a
  "ciphertext" is the key followed by the text, and decryption fails on anything that
  does not start with the key.
\<close>

definition prefix_cipher :: cryptojs where
  "prefix_cipher =
     \<lparr>pbkdf2_hex = (\<lambda>p s keySize iterations.
         case (p, s) of (JStr p', Some (JStr s')) \<Rightarrow> Inr (p' @ s') | _ \<Rightarrow> Inl TypeError),
      aes_encrypt = (\<lambda>data pass rnd. Inr (pass @ data)),
      aes_decrypt_utf8 = (\<lambda>data pass rnd.
         if take (length pass) data = pass then Inr (drop (length pass) data)
         else Inl MalformedUtf8)\<rparr>"

definition server_key :: encryption_config where
  "server_key = \<lparr>passphrase = Some (JStr ''pass''), salt = Some (JStr ''salt'')\<rparr>"





text \<open>An answer with status 200 whose body is an HTML page, not JSON.\<close>

definition html_response :: http_response where
  "html_response = \<lparr>resp_ok = True, resp_text = Some ''<html></html>'', resp_json = None\<rparr>"

text \<open>
  A deployment whose \<^verbatim>\<open>/config.yaml\<close> holds the line \<^verbatim>\<open>url: ""\<close> (what \<^verbatim>\<open>setup.sh\<close> writes
  when the base URL is left empty), and where nothing else answers.
\<close>

definition blank_config_net :: network where
  "blank_config_net =
     (\<lambda>r. if req_url r = ''/config.yaml''
           then Responded \<lparr>resp_ok = True, resp_text = Some (''url: '' @ [CHR 0x22, CHR 0x22]),
                  resp_json = None\<rparr>
           else Rejected)"

text \<open>A server that answers every request with the given text.\<close>

definition text_net :: "string \<Rightarrow> network" where
  "text_net txt = (\<lambda>r. Responded \<lparr>resp_ok = True, resp_text = Some txt, resp_json = None\<rparr>)"

definition error_text :: "srv_error \<Rightarrow> string" where
  "error_text e = (case e of NotFound \<Rightarrow> ''Session not found''
     | JoinDisabled \<Rightarrow> ''Session is not accepting new members''
     | Forbidden \<Rightarrow> ''Only the host can do this''
     | PayloadTooLarge \<Rightarrow> ''File too large'')"

definition open_session :: server_session where
  "open_session = \<lparr>ss_host_id = ''u1'', ss_allow_join = True, ss_created_at = 0,
     ss_last_activity = 0, ss_users = [alice], ss_ledger = empty_ledger, ss_empty_since = None\<rparr>"

definition one_session :: registry where
  "one_session = (\<lambda>sid. if sid = ''abc123'' then Some open_session else None)"

definition not_found_response :: http_response where
  "not_found_response = \<lparr>resp_ok = False, resp_text = None,
     resp_json = Some (JObj [(''detail'', JStr ''Session not found'')])\<rparr>"

definition joined_response :: http_response where
  "joined_response = \<lparr>resp_ok = True, resp_text = None,
     resp_json = Some (JObj [(''session_id'', JStr ''abc123''), (''user_id'', JStr ''u2''),
       (''user_name'', JStr ''Guest''), (''is_host'', JBool False)])\<rparr>"

definition note_block :: "string \<Rightarrow> new_block" where
  "note_block c = \<lparr>nb_kind = TextKind, nb_payload = c, nb_filename = None, nb_size = length c,
     nb_creator = ''u1'', nb_created_at = 0\<rparr>"

text \<open>
  A render with a changed dependency while the first socket is open: the cleanup closes
  socket 0 and the effect connects socket 1; socket 0's close event then runs its
  \<^verbatim>\<open>onclose\<close>, which sets the reconnect timeout; socket 1 opens; the timeout fires and
  connects socket 2, which opens.
\<close>

definition rerun_trace :: "hook_event list" where
  "rerun_trace = [Mount, SocketOpens 0, Rerun, SocketCloses 0, SocketOpens 1, TimeoutFires 1,
     SocketOpens 2]"

section \<open>Properties of the client's message handling\<close>


lemma distinct_one_match:
  "distinct (map f xs) \<Longrightarrow> h \<in> f ` set xs \<Longrightarrow> length (filter (\<lambda>x. f x = h) xs) = 1"
  by (induction xs) (auto simp: image_iff filter_empty_conv)

lemma remove_one_length:
  assumes "distinct (map f xs)" and "h \<in> f ` set xs"
  shows "Suc (length (filter (\<lambda>x. f x \<noteq> h) xs)) = length xs"
proof -
  have "length (filter (\<lambda>x. f x = h) xs) + length (filter (\<lambda>x. \<not> f x = h) xs) = length xs"
    by (rule sum_length_filter_compl)
  with distinct_one_match [OF assms] show ?thesis by simp
qed

lemma handle_unknown:
  "msg_type m \<notin> set event_kinds \<Longrightarrow> handleWebSocketMessage sd m st = st"
  by (simp add: handleWebSocketMessage_def event_kinds_def)

lemma handle_block_deleted:
  "msg_type m = ''block_deleted'' \<Longrightarrow>
   handleWebSocketMessage sd m st =
     st\<lparr>blocks := filter (\<lambda>b. block_id b \<noteq> msg_block_id m) (blocks st)\<rparr>"
  by (simp add: handleWebSocketMessage_def)







text \<open>
  C4. Processing a \<^verbatim>\<open>block_deleted\<close> event carrying \<^verbatim>\<open>block_id = b\<close> removes the blocks
  whose id is \<open>b\<close> and nothing else: no remaining block has id \<open>b\<close>, every block with
  another id remains, the remaining blocks are a subsequence of the old list (the
  original relative order), the list is exactly the old one filtered, one entry is
  removed when the ids are distinct and \<open>b\<close> is present, and the users list, the
  session object and the notification are untouched.
\<close>

theorem block_deleted_removes_exactly:
  "msg_type m = ''block_deleted'' \<Longrightarrow>
     (\<forall>b \<in> set (blocks (handleWebSocketMessage sd m st)). block_id b \<noteq> msg_block_id m) \<and>
     (\<forall>b \<in> set (blocks st). block_id b \<noteq> msg_block_id m \<longrightarrow>
         b \<in> set (blocks (handleWebSocketMessage sd m st))) \<and>
     subseq (blocks (handleWebSocketMessage sd m st)) (blocks st) \<and>
     blocks (handleWebSocketMessage sd m st) =
       filter (\<lambda>b. block_id b \<noteq> msg_block_id m) (blocks st) \<and>
     (distinct (map block_id (blocks st)) \<and> msg_block_id m \<in> block_id ` set (blocks st) \<longrightarrow>
        Suc (length (blocks (handleWebSocketMessage sd m st))) = length (blocks st)) \<and>
     users (handleWebSocketMessage sd m st) = users st \<and>
     session (handleWebSocketMessage sd m st) = session st \<and>
     notification (handleWebSocketMessage sd m st) = notification st"
  by (simp add: handle_block_deleted remove_one_length)

text \<open>The theorem at the deletion of block 2 of three.\<close>

theorem block_deleted_removes_exactly_witness:
  "msg_type ((event ''block_deleted'')\<lparr>msg_block_id := 2\<rparr>) = ''block_deleted'' \<and>
   distinct (map block_id (blocks two_users)) \<and>
   2 \<in> block_id ` set (blocks two_users) \<and>
   blocks (handleWebSocketMessage bob_data ((event ''block_deleted'')\<lparr>msg_block_id := 2\<rparr>) two_users)
     = [text_block 1 ''a'', text_block 3 ''c''] \<and>
   users (handleWebSocketMessage bob_data ((event ''block_deleted'')\<lparr>msg_block_id := 2\<rparr>) two_users)
     = [alice, bob]"
  using block_deleted_removes_exactly
    [of "(event ''block_deleted'')\<lparr>msg_block_id := 2\<rparr>" bob_data two_users]
  by (simp add: event_def two_users_def text_block_def)

text \<open>
  C5. The dispatch is closed over the seven event kinds. Whatever callback the hook was
  given, a \<^verbatim>\<open>pong\<close> is filtered out before it: the callback is not run and the state it
  works on stays as it is, while every other message is handed to the callback. With
  \<^verbatim>\<open>handleWebSocketMessage\<close> as the callback, a message whose type is none of the seven
  kinds leaves the whole state (users, blocks, session and the rest) unchanged, and each
  of the seven kinds has its own effect, given here on users, blocks and session.
\<close>

theorem onmessage_dispatch:
  "(msg_type m = ''pong'' \<longrightarrow> ws_onmessage onMessage m s = s) \<and>
   (msg_type m \<noteq> ''pong'' \<longrightarrow> ws_onmessage onMessage m s = onMessage m s) \<and>
   (msg_type m \<notin> set event_kinds \<longrightarrow> ws_onmessage (handleWebSocketMessage sd) m st = st) \<and>
   (msg_type m = ''user_joined'' \<longrightarrow>
      users (ws_onmessage (handleWebSocketMessage sd) m st) = users st @ [msg_user m] \<and>
      blocks (ws_onmessage (handleWebSocketMessage sd) m st) = blocks st \<and>
      session (ws_onmessage (handleWebSocketMessage sd) m st) = session st) \<and>
   (msg_type m = ''user_left'' \<longrightarrow>
      users (ws_onmessage (handleWebSocketMessage sd) m st)
        = filter (\<lambda>u. user_id u \<noteq> msg_user_id m) (users st) \<and>
      blocks (ws_onmessage (handleWebSocketMessage sd) m st) = blocks st \<and>
      session (ws_onmessage (handleWebSocketMessage sd) m st) = session st) \<and>
   (msg_type m = ''block_created'' \<longrightarrow>
      blocks (ws_onmessage (handleWebSocketMessage sd) m st) = blocks st @ [msg_block m] \<and>
      users (ws_onmessage (handleWebSocketMessage sd) m st) = users st \<and>
      session (ws_onmessage (handleWebSocketMessage sd) m st) = session st) \<and>
   (msg_type m = ''block_deleted'' \<longrightarrow>
      blocks (ws_onmessage (handleWebSocketMessage sd) m st)
        = filter (\<lambda>b. block_id b \<noteq> msg_block_id m) (blocks st) \<and>
      users (ws_onmessage (handleWebSocketMessage sd) m st) = users st \<and>
      session (ws_onmessage (handleWebSocketMessage sd) m st) = session st) \<and>
   (msg_type m = ''host_transferred'' \<longrightarrow>
      users (ws_onmessage (handleWebSocketMessage sd) m st) =
        map (\<lambda>u. u\<lparr>is_host := (user_id u = msg_new_host_id m)\<rparr>) (users st) \<and>
      session (ws_onmessage (handleWebSocketMessage sd) m st) =
        Some ((spread (session st))\<lparr>host_id := Some (msg_new_host_id m)\<rparr>) \<and>
      blocks (ws_onmessage (handleWebSocketMessage sd) m st) = blocks st) \<and>
   (msg_type m = ''join_permission_changed'' \<longrightarrow>
      session (ws_onmessage (handleWebSocketMessage sd) m st) =
        Some ((spread (session st))\<lparr>allow_join := Some (msg_allow_join m)\<rparr>) \<and>
      users (ws_onmessage (handleWebSocketMessage sd) m st) = users st \<and>
      blocks (ws_onmessage (handleWebSocketMessage sd) m st) = blocks st) \<and>
   (msg_type m = ''session_destroyed'' \<longrightarrow>
      notification (ws_onmessage (handleWebSocketMessage sd) m st)
        = Some ''Session has been destroyed'' \<and>
      reload_scheduled (ws_onmessage (handleWebSocketMessage sd) m st) \<and>
      users (ws_onmessage (handleWebSocketMessage sd) m st) = users st \<and>
      blocks (ws_onmessage (handleWebSocketMessage sd) m st) = blocks st \<and>
      session (ws_onmessage (handleWebSocketMessage sd) m st) = session st)"
proof (intro conjI impI)
  assume "msg_type m = ''pong''"
  then show "ws_onmessage onMessage m s = s" by (simp add: ws_onmessage_def)
next
  assume "msg_type m \<noteq> ''pong''"
  then show "ws_onmessage onMessage m s = onMessage m s" by (simp add: ws_onmessage_def)
next
  assume "msg_type m \<notin> set event_kinds"
  then show "ws_onmessage (handleWebSocketMessage sd) m st = st"
    by (simp add: ws_onmessage_def handle_unknown)
qed (simp_all add: ws_onmessage_def handleWebSocketMessage_def showNotification_def Let_def
       split: option.split)

text \<open>
  The theorem at a callback that counts its calls (a pong is not counted, any other
  message is), and with \<^verbatim>\<open>handleWebSocketMessage\<close> at a pong, at a message of an unknown
  type and at a join of Bob.
\<close>

theorem onmessage_dispatch_witness:
  "ws_onmessage count_calls (event ''pong'') 0 = 0 \<and>
   count_calls (event ''pong'') 0 = 1 \<and>
   ws_onmessage count_calls (event ''typing'') 0 = 1 \<and>
   ws_onmessage (handleWebSocketMessage bob_data) (event ''pong'') two_users = two_users \<and>
   ''typing'' \<notin> set event_kinds \<and>
   ws_onmessage (handleWebSocketMessage bob_data) (event ''typing'') two_users = two_users \<and>
   users (ws_onmessage (handleWebSocketMessage bob_data)
       ((event ''user_joined'')\<lparr>msg_user := bob\<rparr>) two_users) = [alice, bob, bob] \<and>
   session (ws_onmessage (handleWebSocketMessage bob_data)
       ((event ''join_permission_changed'')\<lparr>msg_allow_join := False\<rparr>) two_users)
     = Some \<lparr>host_id = Some ''u1'', allow_join = Some False\<rparr>"
proof -
  have p: "ws_onmessage count_calls (event ''pong'') 0 = 0"
    using onmessage_dispatch [where m = "event ''pong''" and onMessage = count_calls and s = "0::nat", THEN conjunct1]
    by (simp add: event_def)
  have q: "count_calls (event ''pong'') 0 = 1"
    by (simp add: count_calls_def)
  have r: "ws_onmessage count_calls (event ''typing'') 0 = 1"
    using onmessage_dispatch [where m = "event ''typing''" and onMessage = count_calls and s = "0::nat",
        THEN conjunct2, THEN conjunct1]
    by (simp add: event_def count_calls_def)
  have a: "ws_onmessage (handleWebSocketMessage bob_data) (event ''pong'') two_users = two_users"
    using onmessage_dispatch [where m = "event ''pong''" and onMessage = "handleWebSocketMessage bob_data" and s = two_users,
        THEN conjunct1]
    by (simp add: event_def)
  have k: "''typing'' \<notin> set event_kinds"
    by (simp add: event_kinds_def)
  have b: "ws_onmessage (handleWebSocketMessage bob_data) (event ''typing'') two_users = two_users"
    using k onmessage_dispatch [where m = "event ''typing''" and sd = bob_data and st = two_users,
        THEN conjunct2, THEN conjunct2, THEN conjunct1]
    by (simp add: event_def)
  have c: "users (ws_onmessage (handleWebSocketMessage bob_data)
       ((event ''user_joined'')\<lparr>msg_user := bob\<rparr>) two_users) = [alice, bob, bob]"
    using onmessage_dispatch [where m = "(event ''user_joined'')\<lparr>msg_user := bob\<rparr>"
        and sd = bob_data and st = two_users,
        THEN conjunct2, THEN conjunct2, THEN conjunct2, THEN conjunct1]
    by (simp add: event_def two_users_def)
  have d: "session (ws_onmessage (handleWebSocketMessage bob_data)
       ((event ''join_permission_changed'')\<lparr>msg_allow_join := False\<rparr>) two_users)
     = Some \<lparr>host_id = Some ''u1'', allow_join = Some False\<rparr>"
    using onmessage_dispatch [where m = "(event ''join_permission_changed'')\<lparr>msg_allow_join := False\<rparr>"
      and sd = bob_data and st = two_users, THEN conjunct2,
      THEN conjunct2, THEN conjunct2, THEN conjunct2, THEN conjunct2, THEN conjunct2,
      THEN conjunct2, THEN conjunct2, THEN conjunct1]
    by (simp add: event_def two_users_def spread_def)
  from p q r a k b c d show ?thesis by blast
qed
section \<open>Properties of the runtime configuration\<close>

text \<open>
  \<^verbatim>\<open>getBackendUrl\<close> returns exactly a stored URL that is not empty; \<^verbatim>\<open>initConfig\<close> stores the
  value it resolves with; when no candidate yields a match it resolves with the
  fallback, which is never empty; when one does, it resolves with the trimmed group.
\<close>

lemma getBackendUrl_returns:
  "getBackendUrl backendUrl = Inr url \<longleftrightarrow> backendUrl = Some url \<and> url \<noteq> []"
  by (auto simp: getBackendUrl_def split: option.splits)

lemma initConfig_sets_what_it_returns:
  "fst (initConfig e net) = Some (snd (initConfig e net))"
  by (simp add: initConfig_def Let_def split: option.split)

lemma initConfig_fallback:
  "try_config_urls net (configUrls e) = None \<Longrightarrow>
     snd (initConfig e net) \<noteq> [] \<and>
     snd (initConfig e net) =
       (case vite_api_url e of
          None \<Rightarrow> ''http://localhost:8123''
        | Some v \<Rightarrow> if v = [] then ''http://localhost:8123'' else v)"
  by (simp add: initConfig_def Let_def split: option.split)

lemma initConfig_from_config:
  "try_config_urls net (configUrls e) = Some url \<Longrightarrow> initConfig e net = (Some url, url)"
  by (simp add: initConfig_def)

text \<open>
  C10, at the input on which the code departs from it. The claim: \<^verbatim>\<open>initConfig\<close> always
  resolves with a non-empty backend URL, and \<^verbatim>\<open>getBackendUrl\<close> throws exactly when no
  \<^verbatim>\<open>initConfig\<close> call has set the URL. When \<^verbatim>\<open>/config.yaml\<close> is the line \<^verbatim>\<open>url: ""\<close>, the
  expression matches with the lone space as group 1 (after the group fails behind the
  opening quote, \<^verbatim>\<open>\s*\<close> gives the space back), \<^verbatim>\<open>trim\<close> makes it empty, and \<^verbatim>\<open>initConfig\<close>
  stores and resolves with the empty string without reaching the fallback;
  \<^verbatim>\<open>getBackendUrl\<close> then throws "Config not initialized" although \<^verbatim>\<open>initConfig\<close> has run.
\<close>

theorem initConfig_blank_url:
  "initConfig \<lparr>vite_api_url = None\<rparr> blank_config_net = (Some [], []) \<and>
   getBackendUrl (fst (initConfig \<lparr>vite_api_url = None\<rparr> blank_config_net)) =
     Inl (Error (JStr ''Config not initialized. Call initConfig() first.''))"
  by (simp add: initConfig_def configUrls_def blank_config_net_def http_get_def match_after_key_def
      capture_from_def is_space_def is_quote_def url_char_def js_trim_def getBackendUrl_def)

section \<open>Properties of the encryption module\<close>








section \<open>Properties of the API client\<close>

text \<open>
  C9. \<^verbatim>\<open>downloadBlock\<close> never rejects with what \<^verbatim>\<open>decrypt\<close> throws; and when the download
  URL can be built, the fetch answers and the body is read as text, it resolves: with the
  decrypted text if \<^verbatim>\<open>decrypt\<close> succeeds, with the text as fetched if \<^verbatim>\<open>decrypt\<close> throws.
\<close>

theorem downloadBlock_resolves:
  "downloadBlock backendUrl lib cfg rnd net sid bid \<noteq> Inl MalformedUtf8 \<and>
   downloadBlock backendUrl lib cfg rnd net sid bid \<noteq> Inl TypeError \<and>
   downloadBlock backendUrl lib cfg rnd net sid bid
     \<noteq> Inl (Error (JStr ''Encryption not initialized'')) \<and>
   (getDownloadUrl backendUrl sid bid = Inr url \<and> net (http_get url) = Responded r \<and>
    resp_text r = Some body \<longrightarrow>
      downloadBlock backendUrl lib cfg rnd net sid bid =
        Inr (case decrypt lib cfg rnd body of Inr d \<Rightarrow> d | Inl e \<Rightarrow> body) \<and>
      (\<forall>d. decrypt lib cfg rnd body = Inr d \<longrightarrow>
         downloadBlock backendUrl lib cfg rnd net sid bid = Inr d) \<and>
      ((\<exists>e. decrypt lib cfg rnd body = Inl e) \<longrightarrow>
         downloadBlock backendUrl lib cfg rnd net sid bid = Inr body) \<and>
      (\<exists>s. downloadBlock backendUrl lib cfg rnd net sid bid = Inr s))"
proof (intro conjI impI)
  show "downloadBlock backendUrl lib cfg rnd net sid bid \<noteq> Inl MalformedUtf8"
    by (auto simp: downloadBlock_def getDownloadUrl_def getApiBase_def getBackendUrl_def
        split: sum.splits fetch_result.splits option.splits if_splits)
  show "downloadBlock backendUrl lib cfg rnd net sid bid \<noteq> Inl TypeError"
    by (auto simp: downloadBlock_def getDownloadUrl_def getApiBase_def getBackendUrl_def
        split: sum.splits fetch_result.splits option.splits if_splits)
  show "downloadBlock backendUrl lib cfg rnd net sid bid
     \<noteq> Inl (Error (JStr ''Encryption not initialized''))"
    by (auto simp: downloadBlock_def getDownloadUrl_def getApiBase_def getBackendUrl_def
        split: sum.splits fetch_result.splits option.splits if_splits)
qed (auto simp: downloadBlock_def split: sum.splits)

text \<open>
  The theorem at a body that decrypts, at one that does not, and with encryption not
  initialized.
\<close>

theorem downloadBlock_resolves_witness:
  "getDownloadUrl (Some ''http://clippy.test'') ''abc123'' ''7''
     = Inr ''http://clippy.test/api/v1/block/download/abc123/7'' \<and>
   downloadBlock (Some ''http://clippy.test'') prefix_cipher (Some server_key) ''r''
       (text_net ''passsaltclip'') ''abc123'' ''7'' = Inr ''clip'' \<and>
   downloadBlock (Some ''http://clippy.test'') prefix_cipher (Some server_key) ''r''
       (text_net ''raw bytes'') ''abc123'' ''7'' = Inr ''raw bytes'' \<and>
   downloadBlock (Some ''http://clippy.test'') prefix_cipher None ''r''
       (text_net ''passsaltclip'') ''abc123'' ''7'' = Inr ''passsaltclip''"
proof -
  have u: "getDownloadUrl (Some ''http://clippy.test'') ''abc123'' ''7''
     = Inr ''http://clippy.test/api/v1/block/download/abc123/7''"
    by (simp add: getDownloadUrl_def getApiBase_def getBackendUrl_def)
  have n: "text_net body (http_get ''http://clippy.test/api/v1/block/download/abc123/7'')
     = Responded \<lparr>resp_ok = True, resp_text = Some body, resp_json = None\<rparr>" for body
    by (simp add: text_net_def)
  have a: "downloadBlock (Some ''http://clippy.test'') prefix_cipher (Some server_key) ''r''
       (text_net ''passsaltclip'') ''abc123'' ''7'' = Inr ''clip''"
    using downloadBlock_resolves [where backendUrl = "Some ''http://clippy.test''"
        and sid = "''abc123''" and bid = "''7''" and lib = prefix_cipher and rnd = "''r''"
        and url = "''http://clippy.test/api/v1/block/download/abc123/7''"
        and net = "text_net ''passsaltclip''" and cfg = "Some server_key" and body = "''passsaltclip''"
        and r = "\<lparr>resp_ok = True, resp_text = Some ''passsaltclip'', resp_json = None\<rparr>"] u n
    by (simp add: decrypt_def derive_key_def prefix_cipher_def server_key_def)
  have b: "downloadBlock (Some ''http://clippy.test'') prefix_cipher (Some server_key) ''r''
       (text_net ''raw bytes'') ''abc123'' ''7'' = Inr ''raw bytes''"
    using downloadBlock_resolves [where backendUrl = "Some ''http://clippy.test''"
        and sid = "''abc123''" and bid = "''7''" and lib = prefix_cipher and rnd = "''r''"
        and url = "''http://clippy.test/api/v1/block/download/abc123/7''"
        and net = "text_net ''raw bytes''" and cfg = "Some server_key" and body = "''raw bytes''"
        and r = "\<lparr>resp_ok = True, resp_text = Some ''raw bytes'', resp_json = None\<rparr>"] u n
    by (simp add: decrypt_def derive_key_def prefix_cipher_def server_key_def)
  have c: "downloadBlock (Some ''http://clippy.test'') prefix_cipher None ''r''
       (text_net ''passsaltclip'') ''abc123'' ''7'' = Inr ''passsaltclip''"
    using downloadBlock_resolves [where backendUrl = "Some ''http://clippy.test''"
        and sid = "''abc123''" and bid = "''7''" and lib = prefix_cipher and rnd = "''r''"
        and url = "''http://clippy.test/api/v1/block/download/abc123/7''"
        and net = "text_net ''passsaltclip''" and cfg = "None" and body = "''passsaltclip''"
        and r = "\<lparr>resp_ok = True, resp_text = Some ''passsaltclip'', resp_json = None\<rparr>"] u n
    by (simp add: decrypt_def)
  from u a b c show ?thesis by blast
qed

lemma joinSession_rejects_iff:
  "getApiBase backendUrl = Inr base \<Longrightarrow> net (join_request base sid name) = Responded r \<Longrightarrow>
     ((\<exists>e. joinSession backendUrl net sid name = Inl e) \<longleftrightarrow> \<not> resp_ok r \<or> resp_json r = None)"
  by (auto simp: joinSession_def split: sum.splits option.splits)

lemma joinSession_ok:
  "getApiBase backendUrl = Inr base \<Longrightarrow> net (join_request base sid name) = Responded r \<Longrightarrow>
   resp_ok r \<Longrightarrow>
     joinSession backendUrl net sid name
       = (case resp_json r of None \<Rightarrow> Inl SyntaxError | Some j \<Rightarrow> Inr j)"
  by (simp add: joinSession_def)

lemma joinSession_detail:
  "getApiBase backendUrl = Inr base \<Longrightarrow> net (join_request base sid name) = Responded r \<Longrightarrow>
   \<not> resp_ok r \<Longrightarrow> resp_json r = Some error \<Longrightarrow> prop_read error ''detail'' = Inr (Some d) \<Longrightarrow>
   truthy d \<Longrightarrow> joinSession backendUrl net sid name = Inl (Error d)"
  by (simp add: joinSession_def)

lemma joinSession_fallback:
  "getApiBase backendUrl = Inr base \<Longrightarrow> net (join_request base sid name) = Responded r \<Longrightarrow>
   \<not> resp_ok r \<Longrightarrow> resp_json r = Some error \<Longrightarrow>
   prop_read error ''detail'' = Inr None \<or>
     (\<exists>d. prop_read error ''detail'' = Inr (Some d) \<and> \<not> truthy d) \<Longrightarrow>
   joinSession backendUrl net sid name = Inl (Error (JStr ''Failed to join session''))"
  by (auto simp: joinSession_def)

lemma joinSession_no_body:
  "getApiBase backendUrl = Inr base \<Longrightarrow> net (join_request base sid name) = Responded r \<Longrightarrow>
   \<not> resp_ok r \<Longrightarrow>
     (resp_json r = None \<longrightarrow> joinSession backendUrl net sid name = Inl SyntaxError) \<and>
     (resp_json r = Some JNull \<longrightarrow> joinSession backendUrl net sid name = Inl TypeError)"
  by (simp add: joinSession_def)

lemma session_join_result:
  "(reg sid = None \<longrightarrow> session_join now uid rnd sid name reg = Inl NotFound) \<and>
   (\<forall>s. reg sid = Some s \<and> \<not> ss_allow_join s \<longrightarrow>
      session_join now uid rnd sid name reg = Inl JoinDisabled) \<and>
   (\<forall>u h reg'. session_join now uid rnd sid name reg = Inr ((u, h), reg') \<longrightarrow>
      u = uid \<and> h = False)"
  by (auto simp: session_join_def split: option.splits if_splits)

text \<open>
  After the host turns joining off a join fails with JoinDisabled, and after the host
  turns it on again a join succeeds.
\<close>

lemma join_follows_toggle:
  assumes "reg sid = Some s" and "requester = ss_host_id s"
  shows "\<exists>reg1 reg2.
      session_toggleJoin t1 sid requester False reg = Inr reg1 \<and>
      session_join t2 uid rnd sid name reg1 = Inl JoinDisabled \<and>
      session_toggleJoin t3 sid requester True reg1 = Inr reg2 \<and>
      (\<exists>reg3. session_join t4 uid rnd sid name reg2 = Inr ((uid, False), reg3))"
  using assms by (simp add: session_toggleJoin_def session_join_def)

text \<open>
  C2, as amended. The backend's join fails with NotFound when the session id is unknown
  and with JoinDisabled when the session's \<^verbatim>\<open>allow_join\<close> flag is false, and a successful
  join returns the new user's id with \<^verbatim>\<open>isHost = false\<close>. The client's \<^verbatim>\<open>joinSession\<close>,
  given the response to its request, rejects exactly when the response is not ok or its
  body is not JSON. On an ok response it resolves with the parsed body as it is. On a
  response that is not ok it rejects with the body's \<^verbatim>\<open>detail\<close> when that is truthy, with
  "Failed to join session" when the body has no \<^verbatim>\<open>detail\<close> or a falsy one, with a
  SyntaxError when the body is not JSON and with a TypeError when the body is \<^verbatim>\<open>null\<close>.
  When the response is the join endpoint's answer to the backend's result (error texts
  non-empty), a failed join surfaces as a rejection with that error's text and a
  successful one as session data with \<^verbatim>\<open>is_host = false\<close>.
\<close>

theorem join_fails_and_client_rejects:
  assumes base: "getApiBase backendUrl = Inr base"
    and net: "net (join_request base sid name) = Responded r"
  shows
   "(reg sid = None \<longrightarrow> session_join now uid rnd sid name reg = Inl NotFound) \<and>
    (\<forall>s. reg sid = Some s \<and> \<not> ss_allow_join s \<longrightarrow>
       session_join now uid rnd sid name reg = Inl JoinDisabled) \<and>
    (\<forall>u h reg'. session_join now uid rnd sid name reg = Inr ((u, h), reg') \<longrightarrow>
       u = uid \<and> h = False) \<and>
    ((\<exists>e. joinSession backendUrl net sid name = Inl e) \<longleftrightarrow> \<not> resp_ok r \<or> resp_json r = None) \<and>
    (resp_ok r \<longrightarrow>
       joinSession backendUrl net sid name
         = (case resp_json r of None \<Rightarrow> Inl SyntaxError | Some j \<Rightarrow> Inr j)) \<and>
    (\<forall>error d. \<not> resp_ok r \<and> resp_json r = Some error \<and>
         prop_read error ''detail'' = Inr (Some d) \<and> truthy d \<longrightarrow>
       joinSession backendUrl net sid name = Inl (Error d)) \<and>
    (\<forall>error. \<not> resp_ok r \<and> resp_json r = Some error \<and>
         (prop_read error ''detail'' = Inr None \<or>
          (\<exists>d. prop_read error ''detail'' = Inr (Some d) \<and> \<not> truthy d)) \<longrightarrow>
       joinSession backendUrl net sid name = Inl (Error (JStr ''Failed to join session''))) \<and>
    (\<not> resp_ok r \<and> resp_json r = None \<longrightarrow>
       joinSession backendUrl net sid name = Inl SyntaxError) \<and>
    (\<not> resp_ok r \<and> resp_json r = Some JNull \<longrightarrow>
       joinSession backendUrl net sid name = Inl TypeError) \<and>
    (encodes_join detail sid r (session_join now uid rnd sid name reg) \<and> (\<forall>e. detail e \<noteq> []) \<longrightarrow>
       (\<forall>e. session_join now uid rnd sid name reg = Inl e \<longrightarrow>
          joinSession backendUrl net sid name = Inl (Error (JStr (detail e)))) \<and>
       (\<forall>p. session_join now uid rnd sid name reg = Inr p \<longrightarrow>
          (\<exists>data. joinSession backendUrl net sid name = Inr data \<and>
             prop_read data ''is_host'' = Inr (Some (JBool False)) \<and>
             prop_read data ''user_id'' = Inr (Some (JStr uid)))))"
proof -
  let ?res = "session_join now uid rnd sid name reg"
  note iff = joinSession_rejects_iff [of backendUrl base net sid name r, OF base net]
  have ok_r: "joinSession backendUrl net sid name
         = (case resp_json r of None \<Rightarrow> Inl SyntaxError | Some j \<Rightarrow> Inr j)" if "resp_ok r"
    using joinSession_ok [of backendUrl base net sid name r, OF base net that] .
  have det: "joinSession backendUrl net sid name = Inl (Error d)"
    if "\<not> resp_ok r" "resp_json r = Some error" "prop_read error ''detail'' = Inr (Some d)"
      "truthy d" for error d
    using joinSession_detail [of backendUrl base net sid name r error d, OF base net that] .
  have fb: "joinSession backendUrl net sid name = Inl (Error (JStr ''Failed to join session''))"
    if "\<not> resp_ok r" "resp_json r = Some error"
      "prop_read error ''detail'' = Inr None \<or>
         (\<exists>d. prop_read error ''detail'' = Inr (Some d) \<and> \<not> truthy d)" for error
    using joinSession_fallback [of backendUrl base net sid name r error, OF base net that] .
  have nb: "(resp_json r = None \<longrightarrow> joinSession backendUrl net sid name = Inl SyntaxError) \<and>
     (resp_json r = Some JNull \<longrightarrow> joinSession backendUrl net sid name = Inl TypeError)"
    if "\<not> resp_ok r"
    using joinSession_no_body [of backendUrl base net sid name r, OF base net that] .
  have fail: "joinSession backendUrl net sid name = Inl (Error (JStr (detail e)))"
    if enc: "encodes_join detail sid r ?res" and ne: "\<forall>e. detail e \<noteq> []" and e: "?res = Inl e" for e
  proof -
    from enc e obtain body where r: "\<not> resp_ok r" "resp_json r = Some body"
      "prop_read body ''detail'' = Inr (Some (JStr (detail e)))"
      by (auto simp: encodes_join_def split: option.splits)
    from ne have "truthy (JStr (detail e))" by simp
    with det r show ?thesis by blast
  qed
  have ok: "\<exists>data. joinSession backendUrl net sid name = Inr data \<and>
             prop_read data ''is_host'' = Inr (Some (JBool False)) \<and>
             prop_read data ''user_id'' = Inr (Some (JStr uid))"
    if enc: "encodes_join detail sid r ?res" and p: "?res = Inr p" for p
  proof -
    obtain u h reg' where p': "p = ((u, h), reg')" by (cases p) auto
    from session_join_result [of reg sid now uid rnd name] p p' have uh: "u = uid" "h = False"
      by auto
    from enc p p' uh obtain body where r: "resp_ok r" "resp_json r = Some body"
      "prop_read body ''user_id'' = Inr (Some (JStr uid))"
      "prop_read body ''is_host'' = Inr (Some (JBool False))"
      by (auto simp: encodes_join_def split: option.splits)
    from ok_r r have "joinSession backendUrl net sid name = Inr body" by simp
    with r show ?thesis by simp
  qed
  from session_join_result [of reg sid now uid rnd name] iff ok_r det fb nb fail ok
  show ?thesis by blast
qed

text \<open>
  The theorem at a join of an unknown session and at a join of an open one, both
  through a configured client.
\<close>

theorem join_fails_and_client_rejects_witness:
  "getApiBase (Some ''http://clippy.test'') = Inr ''http://clippy.test/api/v1'' \<and>
   encodes_join error_text ''zzz999'' not_found_response
     (session_join 10 ''u2'' ''Guest'' ''zzz999'' None one_session) \<and>
   (\<forall>e. error_text e \<noteq> []) \<and>
   session_join 10 ''u2'' ''Guest'' ''zzz999'' None one_session = Inl NotFound \<and>
   joinSession (Some ''http://clippy.test'') (\<lambda>q. Responded not_found_response) ''zzz999'' None
     = Inl (Error (JStr ''Session not found'')) \<and>
   encodes_join error_text ''abc123'' joined_response
     (session_join 10 ''u2'' ''Guest'' ''abc123'' None one_session) \<and>
   joinSession (Some ''http://clippy.test'') (\<lambda>q. Responded joined_response) ''abc123'' None
     = Inr (JObj [(''session_id'', JStr ''abc123''), (''user_id'', JStr ''u2''),
         (''user_name'', JStr ''Guest''), (''is_host'', JBool False)])"
proof -
  have base: "getApiBase (Some ''http://clippy.test'') = Inr ''http://clippy.test/api/v1''"
    by (simp add: getApiBase_def getBackendUrl_def)
  have det: "\<forall>e. error_text e \<noteq> []"
    by (simp add: error_text_def split: srv_error.split)
  have nf: "session_join 10 ''u2'' ''Guest'' ''zzz999'' None one_session = Inl NotFound"
    by (simp add: session_join_def one_session_def)
  have enc1: "encodes_join error_text ''zzz999'' not_found_response
     (session_join 10 ''u2'' ''Guest'' ''zzz999'' None one_session)"
    by (simp add: nf encodes_join_def not_found_response_def error_text_def)
  have enc2: "encodes_join error_text ''abc123'' joined_response
     (session_join 10 ''u2'' ''Guest'' ''abc123'' None one_session)"
    by (simp add: session_join_def one_session_def open_session_def encodes_join_def
        joined_response_def)
  note composed = conjunct2 [THEN conjunct2, THEN conjunct2, THEN conjunct2, THEN conjunct2,
      THEN conjunct2, THEN conjunct2, THEN conjunct2, THEN conjunct2]
  have t1: "encodes_join error_text ''zzz999'' not_found_response
       (session_join 10 ''u2'' ''Guest'' ''zzz999'' None one_session) \<and>
     (\<forall>e. error_text e \<noteq> []) \<longrightarrow>
     (\<forall>e. session_join 10 ''u2'' ''Guest'' ''zzz999'' None one_session = Inl e \<longrightarrow>
        joinSession (Some ''http://clippy.test'') (\<lambda>q. Responded not_found_response) ''zzz999'' None
          = Inl (Error (JStr (error_text e)))) \<and>
     (\<forall>p. session_join 10 ''u2'' ''Guest'' ''zzz999'' None one_session = Inr p \<longrightarrow>
        (\<exists>data. joinSession (Some ''http://clippy.test'') (\<lambda>q. Responded not_found_response)
             ''zzz999'' None = Inr data \<and>
           prop_read data ''is_host'' = Inr (Some (JBool False)) \<and>
           prop_read data ''user_id'' = Inr (Some (JStr ''u2''))))"
    by (rule join_fails_and_client_rejects [where net = "\<lambda>q. Responded not_found_response"
          and r = not_found_response, OF base refl, THEN composed])
  with enc1 det nf
  have "joinSession (Some ''http://clippy.test'') (\<lambda>q. Responded not_found_response) ''zzz999'' None
     = Inl (Error (JStr (error_text NotFound)))" by blast
  then have r1: "joinSession (Some ''http://clippy.test'') (\<lambda>q. Responded not_found_response)
     ''zzz999'' None = Inl (Error (JStr ''Session not found''))"
    by (simp add: error_text_def)
  have t2: "resp_ok joined_response \<longrightarrow>
       joinSession (Some ''http://clippy.test'') (\<lambda>q. Responded joined_response) ''abc123'' None
         = (case resp_json joined_response of None \<Rightarrow> Inl SyntaxError | Some j \<Rightarrow> Inr j)"
    by (rule join_fails_and_client_rejects [where net = "\<lambda>q. Responded joined_response"
          and r = joined_response and reg = one_session and now = 10 and uid = "''u2''"
          and rnd = "''Guest''" and detail = error_text,
          OF base refl, THEN conjunct2, THEN conjunct2, THEN conjunct2, THEN conjunct2,
          THEN conjunct1])
  have r2: "joinSession (Some ''http://clippy.test'') (\<lambda>q. Responded joined_response) ''abc123'' None
     = Inr (JObj [(''session_id'', JStr ''abc123''), (''user_id'', JStr ''u2''),
         (''user_name'', JStr ''Guest''), (''is_host'', JBool False)])"
    using t2 by (simp add: joined_response_def)
  from base enc1 det nf r1 enc2 r2 show ?thesis by blast
qed

text \<open>
  C2 as stated fails: \<^verbatim>\<open>joinSession\<close> also rejects on a response that is ok, when its body
  is not JSON (a proxy or a development server answering 200 with an HTML page):
  \<^verbatim>\<open>response.json()\<close> rejects with a SyntaxError, which carries no server detail.
\<close>

theorem joinSession_rejects_ok_response:
  "resp_ok html_response \<and>
   joinSession (Some ''http://clippy.test'') (\<lambda>q. Responded html_response) ''abc123'' None
     = Inl SyntaxError"
  by (simp add: html_response_def joinSession_def getApiBase_def getBackendUrl_def)
section \<open>Properties of the ledger and the registry\<close>

lemma run_ledger_bounds:
  "run_ledger max_size ops l = (ids, l') \<Longrightarrow>
     sorted_wrt (<) ids \<and> (\<forall>i \<in> set ids. next_block_id l \<le> i \<and> i < next_block_id l') \<and>
     next_block_id l \<le> next_block_id l'"
proof (induction max_size ops l arbitrary: ids l' rule: run_ledger.induct)
  case (1 max_size l)
  then show ?case by simp
next
  case (2 max_size nb ops l)
  show ?case
  proof (cases "ledger_append max_size nb l")
    case (Inl e)
    with 2 show ?thesis by simp
  next
    case (Inr p)
    obtain i l1 where p: "p = (i, l1)" by (cases p)
    obtain ids1 l2 where r: "run_ledger max_size ops l1 = (ids1, l2)"
      by (cases "run_ledger max_size ops l1")
    from Inr p have i: "i = next_block_id l" and n1: "next_block_id l1 = Suc (next_block_id l)"
      by (auto simp: ledger_append_def split: if_splits)
    from "2.IH"(2) [OF Inr p [symmetric] r]
    have ih: "sorted_wrt (<) ids1"
      "\<forall>j \<in> set ids1. next_block_id l1 \<le> j \<and> j < next_block_id l2"
      "next_block_id l1 \<le> next_block_id l2" by auto
    from "2.prems" Inr p r have res: "ids = i # ids1" "l' = l2" by auto
    show ?thesis using ih i n1 unfolding res by auto
  qed
next
  case (3 max_size b ops l)
  show ?case
  proof (cases "ledger_remove b l")
    case (Inl e)
    with 3 show ?thesis by simp
  next
    case (Inr l1)
    then have n1: "next_block_id l1 = next_block_id l"
      by (auto simp: ledger_remove_def split: if_splits)
    from "3.IH"(2) [OF Inr] "3.prems" Inr n1 show ?thesis by simp
  qed
qed

lemma run_ledger_append:
  "run_ledger max_size ops1 l = (ids1, l1) \<Longrightarrow> run_ledger max_size ops2 l1 = (ids2, l2) \<Longrightarrow>
     run_ledger max_size (ops1 @ ops2) l = (ids1 @ ids2, l2)"
proof (induction max_size ops1 l arbitrary: ids1 l1 rule: run_ledger.induct)
  case (1 max_size l)
  then show ?case by simp
next
  case (2 max_size nb ops l)
  show ?case
  proof (cases "ledger_append max_size nb l")
    case (Inl e)
    with 2 show ?thesis by simp
  next
    case (Inr p)
    obtain i la where p: "p = (i, la)" by (cases p)
    obtain idsa lb where r: "run_ledger max_size ops la = (idsa, lb)"
      by (cases "run_ledger max_size ops la")
    from "2.prems"(1) Inr p r have res: "ids1 = i # idsa" "l1 = lb" by auto
    from "2.IH"(2) [OF Inr p [symmetric] r] "2.prems"(2) res
    have "run_ledger max_size (ops @ ops2) la = (idsa @ ids2, l2)" by simp
    with Inr p res show ?thesis by simp
  qed
next
  case (3 max_size b ops l)
  then show ?case by (cases "ledger_remove b l") auto
qed

lemma run_ledger_ok:
  "run_ledger max_size ops l = (ids, l') \<Longrightarrow> ledger_ok l \<Longrightarrow> ledger_ok l'"
proof (induction max_size ops l arbitrary: ids l' rule: run_ledger.induct)
  case (1 max_size l)
  then show ?case by simp
next
  case (2 max_size nb ops l)
  show ?case
  proof (cases "ledger_append max_size nb l")
    case (Inl e)
    with 2 show ?thesis by simp
  next
    case (Inr p)
    obtain i l1 where p: "p = (i, l1)" by (cases p)
    obtain ids1 l2 where r: "run_ledger max_size ops l1 = (ids1, l2)"
      by (cases "run_ledger max_size ops l1")
    from Inr p "2.prems"(2) have ok1: "ledger_ok l1"
      by (auto simp: ledger_append_def ledger_ok_def less_Suc_eq split: if_splits)
    from "2.prems"(1) Inr p r have res: "l' = l2" by auto
    from "2.IH"(2) [OF Inr p [symmetric] r ok1] res show ?thesis by simp
  qed
next
  case (3 max_size b ops l)
  show ?case
  proof (cases "ledger_remove b l")
    case (Inl e)
    with 3 show ?thesis by simp
  next
    case (Inr l1)
    with "3.prems"(2) have ok1: "ledger_ok l1"
      by (auto simp: ledger_remove_def ledger_ok_def split: if_splits)
    from "3.IH"(2) [OF Inr _ ok1] "3.prems"(1) Inr show ?thesis by simp
  qed
qed

text \<open>
  C3. Over the life of a session's ledger, from the empty ledger through any requests
  and then any further requests: the ids that append assigns are strictly increasing,
  every id assigned later is greater than every id assigned earlier and than the id of
  every block still in the ledger, and no id assigned earlier (deleted since or not) is
  assigned again.
\<close>

theorem block_ids_increase:
  "run_ledger max_size ops1 empty_ledger = (ids1, l1) \<Longrightarrow>
   run_ledger max_size ops2 l1 = (ids2, l2) \<Longrightarrow>
     run_ledger max_size (ops1 @ ops2) empty_ledger = (ids1 @ ids2, l2) \<and>
     sorted_wrt (<) (ids1 @ ids2) \<and>
     (\<forall>i \<in> set ids1. \<forall>j \<in> set ids2. i < j) \<and>
     (\<forall>e \<in> set (entries l1). \<forall>j \<in> set ids2. le_id e < j) \<and>
     (\<forall>j \<in> set ids2. j \<notin> set ids1)"
proof -
  assume r1: "run_ledger max_size ops1 empty_ledger = (ids1, l1)"
    and r2: "run_ledger max_size ops2 l1 = (ids2, l2)"
  have r: "run_ledger max_size (ops1 @ ops2) empty_ledger = (ids1 @ ids2, l2)"
    by (rule run_ledger_append [OF r1 r2])
  from run_ledger_bounds [OF r] have s: "sorted_wrt (<) (ids1 @ ids2)" by simp
  then have lt: "\<forall>i \<in> set ids1. \<forall>j \<in> set ids2. i < j"
    by (simp add: sorted_wrt_append)
  have "ledger_ok empty_ledger" by (simp add: ledger_ok_def empty_ledger_def)
  from run_ledger_ok [OF r1 this] have ok1: "\<forall>e \<in> set (entries l1). le_id e < next_block_id l1"
    by (simp add: ledger_ok_def)
  from run_ledger_bounds [OF r2] have "\<forall>j \<in> set ids2. next_block_id l1 \<le> j" by simp
  with ok1 have en: "\<forall>e \<in> set (entries l1). \<forall>j \<in> set ids2. le_id e < j" by fastforce
  from lt have ne: "\<forall>j \<in> set ids2. j \<notin> set ids1" by fastforce
  from r s lt en ne show ?thesis by blast
qed

lemma apply_op_absent:
  "reg sid = None \<Longrightarrow> apply_op threshold grace reg op sid = None"
  by (cases op)
    (auto simp: session_join_def session_toggleJoin_def sweep_def split: option.splits if_splits)

lemma run_registry_absent:
  "reg sid = None \<Longrightarrow> run_registry threshold grace ops reg sid = None"
  unfolding run_registry_def
  by (induction ops arbitrary: reg) (simp_all add: apply_op_absent)

text \<open>
  C6. A session whose last activity lies more than the threshold before the time of a
  sweep is absent from the registry after that sweep, and \<^verbatim>\<open>get\<close> on its id fails with
  NotFound then and after any further joins, join toggles and sweeps; a session that is
  not expired stays.
\<close>

theorem idle_session_evicted:
  "reg sid = Some s \<Longrightarrow> ss_last_activity s + threshold < now \<Longrightarrow>
     sweep now threshold grace reg sid = None \<and>
     session_get (sweep now threshold grace reg) sid = Inl NotFound \<and>
     (\<forall>ops. session_get (run_registry threshold grace ops (sweep now threshold grace reg)) sid
        = Inl NotFound) \<and>
     (\<forall>sid' s'. reg sid' = Some s' \<and> \<not> expired now threshold grace s' \<longrightarrow>
        sweep now threshold grace reg sid' = Some s')"
proof -
  assume a: "reg sid = Some s" and b: "ss_last_activity s + threshold < now"
  then have gone: "sweep now threshold grace reg sid = None"
    by (simp add: sweep_def expired_def)
  then have g: "session_get (sweep now threshold grace reg) sid = Inl NotFound"
    by (simp add: session_get_def)
  have later: "\<forall>ops. session_get (run_registry threshold grace ops (sweep now threshold grace reg)) sid
        = Inl NotFound"
    using run_registry_absent [of "sweep now threshold grace reg" sid threshold grace] gone
    by (simp add: session_get_def)
  have kept: "\<forall>sid' s'. reg sid' = Some s' \<and> \<not> expired now threshold grace s' \<longrightarrow>
        sweep now threshold grace reg sid' = Some s'"
    by (simp add: sweep_def)
  from gone g later kept show ?thesis by blast
qed

text \<open>The theorem at two appends, a removal and a third append.\<close>

theorem block_ids_increase_witness:
  "run_ledger 100 [Append (note_block ''a''), Append (note_block ''b''), Remove 2] empty_ledger
     = ([1, 2], \<lparr>next_block_id = 3, entries = [\<lparr>le_id = 1, le_kind = TextKind, le_payload = ''a'',
          le_filename = None, le_size = 1, le_creator = ''u1'', le_created_at = 0\<rparr>]\<rparr>) \<and>
   fst (run_ledger 100 [Append (note_block ''c'')]
     \<lparr>next_block_id = 3, entries = [\<lparr>le_id = 1, le_kind = TextKind, le_payload = ''a'',
          le_filename = None, le_size = 1, le_creator = ''u1'', le_created_at = 0\<rparr>]\<rparr>) = [3] \<and>
   fst (run_ledger 100 [Append (note_block ''a''), Append (note_block ''b''), Remove 2,
     Append (note_block ''c'')] empty_ledger) = [1, 2, 3] \<and>
   sorted_wrt (<) [1, 2, 3 :: nat]"
proof -
  let ?l1 = "\<lparr>next_block_id = 3, entries = [\<lparr>le_id = 1, le_kind = TextKind, le_payload = ''a'',
          le_filename = None, le_size = 1, le_creator = ''u1'', le_created_at = 0\<rparr>]\<rparr>"
  have r1: "run_ledger 100 [Append (note_block ''a''), Append (note_block ''b''), Remove 2]
      empty_ledger = ([1, 2], ?l1)"
    by (simp add: ledger_append_def ledger_remove_def empty_ledger_def note_block_def)
  obtain l2 where r2: "run_ledger 100 [Append (note_block ''c'')] ?l1 = ([3], l2)"
    by (simp add: ledger_append_def note_block_def)
  from block_ids_increase [OF r1 r2]
  have "run_ledger 100 ([Append (note_block ''a''), Append (note_block ''b''), Remove 2] @
          [Append (note_block ''c'')]) empty_ledger = ([1, 2] @ [3], l2)"
    and "sorted_wrt (<) ([1, 2] @ [3 :: nat])" by blast+
  with r1 r2 show ?thesis by simp
qed

text \<open>The theorem at a session idle since time 0, swept at 3601 with the default threshold.\<close>

theorem idle_session_evicted_witness:
  "one_session ''abc123'' = Some open_session \<and>
   ss_last_activity open_session + default_threshold < 3601 \<and>
   session_get one_session ''abc123'' \<noteq> Inl NotFound \<and>
   session_get (sweep 3601 default_threshold 300 one_session) ''abc123'' = Inl NotFound \<and>
   session_get (run_registry default_threshold 300 [Join 3700 ''u9'' ''Guest'' ''abc123'' None]
      (sweep 3601 default_threshold 300 one_session)) ''abc123'' = Inl NotFound"
proof -
  have a: "one_session ''abc123'' = Some open_session"
    by (simp add: one_session_def)
  have b: "ss_last_activity open_session + default_threshold < 3601"
    by (simp add: open_session_def default_threshold_def)
  have c: "session_get one_session ''abc123'' \<noteq> Inl NotFound"
    by (simp add: session_get_def one_session_def)
  from idle_session_evicted [where reg = one_session and sid = "''abc123''" and s = open_session
      and threshold = default_threshold and now = 3601 and grace = 300] a b c
  show ?thesis by blast
qed

section \<open>Properties of the WebSocket hook\<close>

lemma hook_inv_mount: "hook_inv (hook_step initial_hook Mount)"
  by (simp add: hook_inv_def initial_hook_def connect_def)

lemma interval_set_cleared [simp]: "\<not> interval_set (cleared x)"
  by (cases x) simp_all

lemma timeout_set_cleared [simp]: "\<not> timeout_set (cleared x)"
  by (cases x) simp_all

lemma hook_inv_opens:
  assumes "hook_inv st" shows "hook_inv (hook_step st (SocketOpens k))"
proof (cases "k < length (sockets st) \<and> sockets st ! k = CONNECTING")
  case False
  with assms show ?thesis by auto
next
  case True
  with assms have k: "k = length (sockets st) - 1"
    unfolding hook_inv_def by (metis ready_state.distinct(5) nat_neq_iff not_less_eq Suc_pred' length_greater_0_conv less_Suc_eq)
  from assms True k have noint: "\<forall>t. t < length (timers st) \<longrightarrow> \<not> interval_set (timers st ! t)"
    unfolding hook_inv_def by auto
  from assms True k have notime: "\<forall>t. t < length (timers st) \<longrightarrow> \<not> timeout_set (timers st ! t)"
    unfolding hook_inv_def by auto
  from assms True k noint notime show ?thesis
    unfolding hook_inv_def
    by (auto simp: onopen_def nth_append nth_list_update)
qed


lemma hook_inv_closes:
  assumes "hook_inv st" shows "hook_inv (hook_step st (SocketCloses k))"
proof (cases "k < length (sockets st) \<and> sockets st ! k \<noteq> CLOSED")
  case False
  with assms show ?thesis by auto
next
  case True
  with assms have k: "k = length (sockets st) - 1"
    unfolding hook_inv_def
    by (metis nat_neq_iff not_less_eq Suc_pred' length_greater_0_conv less_Suc_eq)
  from assms True k have notime: "\<forall>t. t < length (timers st) \<longrightarrow> \<not> timeout_set (timers st ! t)"
    unfolding hook_inv_def by auto
  from assms have ref: "\<forall>t. t < length (timers st) \<and> interval_set (timers st ! t) \<longrightarrow>
      pingIntervalRef st = Some t"
    unfolding hook_inv_def by auto
  let ?ts = "case pingIntervalRef st of None \<Rightarrow> timers st | Some t \<Rightarrow> clearTimer t (timers st)"
  have len: "length ?ts = length (timers st)"
    by (simp add: clearTimer_def split: option.split)
  have noint: "\<not> interval_set (?ts ! t)" if "t < length (timers st)" for t
    using that ref by (auto simp: clearTimer_def nth_list_update split: option.split)
  have keep: "timeout_set (?ts ! t) \<Longrightarrow> timeout_set (timers st ! t)" if "t < length (timers st)" for t
    using that by (auto simp: clearTimer_def nth_list_update split: option.splits if_splits)
  have st': "hook_step st (SocketCloses k) =
      st\<lparr>sockets := (sockets st)[k := CLOSED], isConnected := False,
         timers := ?ts @ [Timeout 3000 True], reconnectTimeoutRef := Some (length ?ts)\<rparr>"
    using True by (cases "pingIntervalRef st") (simp_all add: onclose_def Let_def)
  from assms True k notime show ?thesis
    unfolding hook_inv_def st'
    using noint keep len
    by (auto simp: nth_append nth_list_update less_Suc_eq)
qed

lemma hook_inv_errors:
  assumes "hook_inv st" shows "hook_inv (hook_step st (SocketErrors k))"
  using assms by (auto simp: hook_inv_def onerror_def)

lemma hook_inv_interval:
  assumes "hook_inv st" shows "hook_inv (hook_step st (IntervalFires t))"
  using assms by (auto simp: hook_inv_def ping_callback_def split: option.splits)

lemma hook_inv_timeout:
  assumes "hook_inv st" shows "hook_inv (hook_step st (TimeoutFires t))"
proof (cases "t < length (timers st) \<and> timeout_set (timers st ! t)")
  case False
  with assms show ?thesis by auto
next
  case True
  with assms have cl: "sockets st ! (length (sockets st) - 1) = CLOSED"
    and ref: "reconnectTimeoutRef st = Some t"
    unfolding hook_inv_def by auto
  from assms cl have noint: "\<forall>u. u < length (timers st) \<longrightarrow> \<not> interval_set (timers st ! u)"
    unfolding hook_inv_def by auto
  from assms ref have only: "\<forall>u. u < length (timers st) \<and> timeout_set (timers st ! u) \<longrightarrow> u = t"
    unfolding hook_inv_def by auto
  have noint': "\<not> interval_set (clearTimer t (timers st) ! u)" if "u < length (timers st)" for u
    using that noint by (auto simp: clearTimer_def nth_list_update)
  have notime': "\<not> timeout_set (clearTimer t (timers st) ! u)" if "u < length (timers st)" for u
    using that only by (auto simp: clearTimer_def nth_list_update)
  have len: "length (clearTimer t (timers st)) = length (timers st)"
    by (simp add: clearTimer_def)
  have all_closed: "sockets st ! k = CLOSED" if "k < length (sockets st)" for k
    using that assms cl unfolding hook_inv_def
    by (metis Suc_pred' length_greater_0_conv less_Suc_eq)
  from assms True show ?thesis
    unfolding hook_inv_def
    using noint' notime' len all_closed
    by (auto simp: connect_def nth_append)
qed

lemma hook_inv_step:
  "hook_inv st \<Longrightarrow> no_rerender ev \<Longrightarrow> hook_inv (hook_step st ev)"
  by (cases ev)
    (simp_all add: hook_inv_opens hook_inv_closes hook_inv_errors hook_inv_interval
      hook_inv_timeout del: hook_step.simps)

lemma hook_inv_run:
  "hook_inv st \<Longrightarrow> list_all no_rerender evs \<Longrightarrow> hook_inv (run_hook evs st)"
  unfolding run_hook_def
  by (induction evs arbitrary: st) (simp_all add: hook_inv_step del: hook_step.simps)


lemma filter_upt_none: "\<forall>u. u < n \<longrightarrow> \<not> P u \<Longrightarrow> filter P [0..<n] = []"
  by (simp add: filter_empty_conv)

lemma filter_upt_single:
  assumes "t < n" "P t" "\<forall>u. u < n \<and> P u \<longrightarrow> u = t"
  shows "filter P [0..<n] = [t]"
proof -
  have split: "[0..<n] = [0..<t] @ t # [Suc t..<n]"
  proof -
    from assms(1) have "[0..<n] = [0..<t] @ [t..<n]"
      using upt_add_eq_append [of 0 t "n - t"] by simp
    also have "[t..<n] = t # [Suc t..<n]"
      by (rule upt_conv_Cons [OF assms(1)])
    finally show ?thesis .
  qed
  have na: "\<not> P u" if "u < t" for u
  proof
    assume "P u"
    moreover from that assms(1) have "u < n" by simp
    ultimately have "u = t" using assms(3) by blast
    with that show False by simp
  qed
  have nb: "\<not> P u" if "t < u" "u < n" for u
  proof
    assume "P u"
    with that(2) have "u = t" using assms(3) by blast
    with that(1) show False by simp
  qed
  have a: "filter P [0..<t] = []"
    using na by (simp add: filter_empty_conv)
  have b: "filter P [Suc t..<n] = []"
    using nb by (simp add: filter_empty_conv)
  have "filter P [0..<n] = filter P [0..<t] @ filter P [t] @ filter P [Suc t..<n]"
    by (subst split) simp
  with a b assms(2) show ?thesis by simp
qed

text \<open>
  Within a run of one effect the hook pings as intended: at most one ping interval is
  set, one is set exactly while the current socket is open, no other socket is open or
  connecting, and a period of 30 seconds sends exactly one ping, on the current socket,
  if that socket is open and none otherwise (so none once it has closed).
\<close>

lemma single_run_one_ping:
  assumes "list_all no_rerender evs"
  shows
   "length (ping_intervals (run_hook (Mount # evs) initial_hook)) \<le> 1 \<and>
    (ping_intervals (run_hook (Mount # evs) initial_hook) \<noteq> [] \<longleftrightarrow>
       current_socket (run_hook (Mount # evs) initial_hook) = Some OPEN) \<and>
    (\<forall>k. k < length (sockets (run_hook (Mount # evs) initial_hook)) \<and>
          sockets (run_hook (Mount # evs) initial_hook) ! k \<noteq> CLOSED \<longrightarrow>
          wsRef (run_hook (Mount # evs) initial_hook) = Some k) \<and>
    sent (period_elapses (run_hook (Mount # evs) initial_hook)) =
      sent (run_hook (Mount # evs) initial_hook) @
      (if current_socket (run_hook (Mount # evs) initial_hook) = Some OPEN
       then [(length (sockets (run_hook (Mount # evs) initial_hook)) - 1,
              JObj [(''type'', JStr ''ping'')])]
       else [])"
proof -
  let ?st = "run_hook (Mount # evs) initial_hook"
  have "?st = run_hook evs (hook_step initial_hook Mount)"
    by (simp add: run_hook_def)
  with hook_inv_run [OF hook_inv_mount assms] have inv: "hook_inv ?st" by simp
  let ?n = "length (sockets ?st)"
  from inv have ne: "sockets ?st \<noteq> []" and ref: "wsRef ?st = Some (?n - 1)"
    and closed: "\<forall>k. k < ?n - 1 \<longrightarrow> sockets ?st ! k = CLOSED"
    and ints: "\<forall>t. t < length (timers ?st) \<and> interval_set (timers ?st ! t) \<longrightarrow>
           pingIntervalRef ?st = Some t \<and> sockets ?st ! (?n - 1) = OPEN"
    and op: "sockets ?st ! (?n - 1) = OPEN \<longrightarrow>
         (\<exists>t. t < length (timers ?st) \<and> pingIntervalRef ?st = Some t \<and> interval_set (timers ?st ! t))"
    unfolding hook_inv_def by blast+
  from ne ref have cur: "current_socket ?st = Some (sockets ?st ! (?n - 1))"
    by (simp add: current_socket_def)
  have only: "wsRef ?st = Some k" if "k < ?n" "sockets ?st ! k \<noteq> CLOSED" for k
  proof -
    from that closed have "\<not> k < ?n - 1" by blast
    with that(1) have "k = ?n - 1" by simp
    with ref show ?thesis by simp
  qed
  show ?thesis
  proof (cases "sockets ?st ! (?n - 1) = OPEN")
    case True
    with op obtain t where t: "t < length (timers ?st)" "pingIntervalRef ?st = Some t"
      "interval_set (timers ?st ! t)" by blast
    from ints t(2) have "\<forall>u. u < length (timers ?st) \<and> interval_set (timers ?st ! u) \<longrightarrow> u = t"
      by auto
    from filter_upt_single [OF t(1), of "\<lambda>u. interval_set (timers ?st ! u)", OF t(3) this]
    have pi: "ping_intervals ?st = [t]" by (simp add: ping_intervals_def)
    have "sent (period_elapses ?st) = sent ?st @ [(?n - 1, JObj [(''type'', JStr ''ping'')])]"
      using t True ref ne by (simp add: period_elapses_def pi ping_callback_def)
    with pi cur True only show ?thesis by auto
  next
    case False
    with ints have "\<forall>u. u < length (timers ?st) \<longrightarrow> \<not> interval_set (timers ?st ! u)" by blast
    from filter_upt_none [of "length (timers ?st)" "\<lambda>u. interval_set (timers ?st ! u)", OF this]
    have pi: "ping_intervals ?st = []" by (simp add: ping_intervals_def)
    then have "period_elapses ?st = ?st" by (simp add: period_elapses_def)
    with pi cur False only show ?thesis by auto
  qed
qed

lemma rerun_state:
  "run_hook rerun_trace initial_hook =
     \<lparr>sockets = [CLOSED, OPEN, OPEN],
      timers = [Interval 30000 False, Timeout 3000 False, Interval 30000 True, Interval 30000 True],
      wsRef = Some 2, pingIntervalRef = Some 3, reconnectTimeoutRef = Some 1,
      isConnected = True, sent = []\<rparr>"
  by (simp add: rerun_trace_def run_hook_def initial_hook_def connect_def onopen_def onclose_def
      cleanup_def clearTimer_def close_socket_def)

lemma upt_4: "[0..<4] = [0, 1, 2, 3]"
  by (simp add: upt_rec)

text \<open>
  C7, at the input on which the code departs from it. The claim: while its connection
  is open the client sends one ping per 30-second interval, and stops once the
  connection closes. After a render with a changed dependency the \<^verbatim>\<open>onclose\<close> of the
  socket that the cleanup closed still runs and reconnects, so that sockets 1 and 2 are
  both open and each has set a ping interval. Both intervals send on \<^verbatim>\<open>wsRef.current\<close>:
  in one period socket 2 is sent two pings and the open socket 1 none.
\<close>

theorem rerun_doubles_the_ping:
  "sockets (run_hook rerun_trace initial_hook) = [CLOSED, OPEN, OPEN] \<and>
   wsRef (run_hook rerun_trace initial_hook) = Some 2 \<and>
   ping_intervals (run_hook rerun_trace initial_hook) = [2, 3] \<and>
   sent (period_elapses (run_hook rerun_trace initial_hook)) =
     [(2, JObj [(''type'', JStr ''ping'')]), (2, JObj [(''type'', JStr ''ping'')])]"
  by (simp add: rerun_state period_elapses_def ping_intervals_def ping_callback_def upt_4)

end
